theory Spec2Isabelle
  imports Complex_Main "HOL-Library.AList"
begin

section \<open>Python values used by webhook.py\<close>

text \<open>
  Python \<open>str\<close> values are modelled as \<open>string\<close>; the model covers ASCII text.
  The three string methods the program calls are written out for ASCII:
  \<open>str.strip()\<close> removes the characters for which \<open>str.isspace()\<close> holds
  (code points 9-13 and 28-32), \<open>str.lower()\<close> and \<open>str.upper()\<close> map the 26 letters
  and leave every other character alone.
\<close>

definition is_space :: "char \<Rightarrow> bool" where
  "is_space c = (let n = (of_char c :: nat) in (9 \<le> n \<and> n \<le> 13) \<or> (28 \<le> n \<and> n \<le> 32))"

definition strip :: "string \<Rightarrow> string" where
  "strip s = rev (dropWhile is_space (rev (dropWhile is_space s)))"

definition lower_chr :: "char \<Rightarrow> char" where
  "lower_chr c = (let n = (of_char c :: nat) in if 65 \<le> n \<and> n \<le> 90 then char_of (n + 32) else c)"

definition upper_chr :: "char \<Rightarrow> char" where
  "upper_chr c = (let n = (of_char c :: nat) in if 97 \<le> n \<and> n \<le> 122 then char_of (n - 32) else c)"

definition lower :: "string \<Rightarrow> string" where
  "lower s = map lower_chr s"

definition upper :: "string \<Rightarrow> string" where
  "upper s = map upper_chr s"

definition startswith :: "string \<Rightarrow> string \<Rightarrow> bool" where
  "startswith s p = (take (length p) s = p)"

text \<open>\<open>s.split(c)\<close> for a one-character separator: always at least one piece.\<close>

fun split_chr :: "char \<Rightarrow> string \<Rightarrow> string list" where
  "split_chr c [] = [[]]"
| "split_chr c (x # xs) =
     (if x = c then [] # split_chr c xs
      else (case split_chr c xs of [] \<Rightarrow> [[x]] | piece # pieces \<Rightarrow> (x # piece) # pieces))"

text \<open>\<open>s.split(c, 1)\<close>: one piece when \<open>c\<close> does not occur, else the text before the
  first \<open>c\<close> and the text after it.\<close>

definition split_once :: "char \<Rightarrow> string \<Rightarrow> string list" where
  "split_once c s =
     (if c \<in> set s then [takeWhile (\<lambda>x. x \<noteq> c) s, tl (dropWhile (\<lambda>x. x \<noteq> c) s)] else [s])"

text \<open>Exceptions that can leave a function of webhook.py uncaught.\<close>

datatype exn = ValueError | AttributeError | BinasciiError | RequestException

text \<open>
  A Python \<open>dict\<close> with string keys is an association list in insertion order;
  \<open>d[k] = v\<close> is \<^const>\<open>AList.update\<close> (an existing key keeps its place, a new one goes
  last), \<open>d.get(k)\<close> is \<^const>\<open>map_of\<close>.
\<close>

type_synonym dict = "(string \<times> string) list"

definition dict_get :: "dict \<Rightarrow> string \<Rightarrow> string option" where
  "dict_get d k = map_of d k"

definition dict_get_default :: "dict \<Rightarrow> string \<Rightarrow> string \<Rightarrow> string" where
  "dict_get_default d k dflt = (case map_of d k of Some v \<Rightarrow> v | None \<Rightarrow> dflt)"

text \<open>
  A Python \<open>float\<close> is a finite double (an exact real), an infinity or NaN. Comparisons are
  the IEEE ones Python uses: every comparison with NaN is false.
\<close>

datatype pyfloat = Fin real | PInf | NInf | NaN

fun float_le :: "pyfloat \<Rightarrow> pyfloat \<Rightarrow> bool" where
  "float_le NaN y = False"
| "float_le x NaN = False"
| "float_le NInf y = True"
| "float_le x PInf = True"
| "float_le (Fin a) (Fin b) = (a \<le> b)"
| "float_le PInf y = False"
| "float_le (Fin a) NInf = False"

fun float_lt :: "pyfloat \<Rightarrow> pyfloat \<Rightarrow> bool" where
  "float_lt NaN y = False"
| "float_lt x NaN = False"
| "float_lt (Fin a) (Fin b) = (a < b)"
| "float_lt PInf y = False"
| "float_lt x NInf = False"
| "float_lt NInf y = True"
| "float_lt (Fin a) PInf = True"

definition float_gt :: "pyfloat \<Rightarrow> pyfloat \<Rightarrow> bool" where
  "float_gt x y = float_lt y x"

text \<open>
  \<open>x - y\<close> on floats. The exact difference of two finite doubles is rounded to a double
  by \<open>rnd\<close> (which may overflow to an infinity); the special values follow IEEE 754.
\<close>

fun float_sub :: "(real \<Rightarrow> pyfloat) \<Rightarrow> pyfloat \<Rightarrow> pyfloat \<Rightarrow> pyfloat" where
  "float_sub rnd NaN y = NaN"
| "float_sub rnd x NaN = NaN"
| "float_sub rnd (Fin a) (Fin b) = rnd (a - b)"
| "float_sub rnd PInf PInf = NaN"
| "float_sub rnd NInf NInf = NaN"
| "float_sub rnd PInf y = PInf"
| "float_sub rnd NInf y = NInf"
| "float_sub rnd (Fin a) PInf = NInf"
| "float_sub rnd (Fin a) NInf = PInf"

text \<open>\<open>int(x)\<close> of a finite float truncates towards zero; \<open>str(n)\<close> of an \<open>int\<close> is its
  decimal numeral.\<close>

definition int_of_float :: "real \<Rightarrow> int" where
  "int_of_float x = (if 0 \<le> x then \<lfloor>x\<rfloor> else \<lceil>x\<rceil>)"

definition digit_chr :: "nat \<Rightarrow> char" where
  "digit_chr d = char_of (48 + d)"

function str_nat :: "nat \<Rightarrow> string" where
  "str_nat n = (if n < 10 then [digit_chr n] else str_nat (n div 10) @ [digit_chr (n mod 10)])"
  by pat_completeness auto
termination
  by (relation "measure id") auto

declare str_nat.simps [simp del]

definition str_int :: "int \<Rightarrow> string" where
  "str_int i = (if i < 0 then CHR ''-'' # str_nat (nat (- i)) else str_nat (nat i))"

text \<open>JSON values, as \<open>json.dumps\<close>, \<open>jsonify\<close> and \<open>Response.json()\<close> handle them.\<close>

datatype json =
    JNull
  | JBool bool
  | JInt int
  | JFloat pyfloat
  | JStr string
  | JArr "json list"
  | JObj "(string \<times> json) list"

definition json_of_optstr :: "string option \<Rightarrow> json" where
  "json_of_optstr x = (case x of None \<Rightarrow> JNull | Some s \<Rightarrow> JStr s)"

definition json_of_dict :: "dict \<Rightarrow> json" where
  "json_of_dict d = JObj (map (\<lambda>(k, v). (k, JStr v)) d)"

text \<open>
  Truthiness of a value that is \<open>None\<close> or a \<open>str\<close>, and the \<open>or\<close> and \<open>not\<close> operators
  on such values.
\<close>

definition truthy :: "string option \<Rightarrow> bool" where
  "truthy x = (case x of None \<Rightarrow> False | Some s \<Rightarrow> s \<noteq> [])"

definition py_not :: "string option \<Rightarrow> bool" where
  "py_not x = (\<not> truthy x)"

definition py_or :: "string option \<Rightarrow> string option \<Rightarrow> string option" where
  "py_or x y = (if truthy x then x else y)"

section \<open>parse\_alert\_text\<close>

text \<open>
  One iteration of the loop body of \<open>parse_alert_text\<close>. The tuple assignment
  \<open>k, v = p.split(":", 1)\<close> raises \<open>ValueError\<close> unless the split has two pieces.
\<close>

definition parse_step :: "string \<Rightarrow> dict \<Rightarrow> exn + dict" where
  "parse_step p parts =
     (if CHR '':'' \<in> set p then
        (case split_once CHR '':'' p of
           [k, v] \<Rightarrow> Inr (AList.update (lower (strip k)) (strip v) parts)
         | _ \<Rightarrow> Inl ValueError)
      else Inr parts)"

fun parse_loop :: "string list \<Rightarrow> dict \<Rightarrow> exn + dict" where
  "parse_loop [] parts = Inr parts"
| "parse_loop (p # ps) parts =
     (case parse_step p parts of Inl e \<Rightarrow> Inl e | Inr parts' \<Rightarrow> parse_loop ps parts')"

definition parse_alert_text :: "string \<Rightarrow> exn + dict" where
  "parse_alert_text txt = parse_loop (split_chr CHR '';'' txt) []"

text \<open>
  The parser as the specification words it: split on \<open>;\<close>, keep the segments that
  contain \<open>:\<close>, split each at its first \<open>:\<close>, lower-case and trim the key, trim the
  value; of several segments with one key the last wins.
\<close>

definition spec_entry :: "string \<Rightarrow> string \<times> string" where
  "spec_entry seg =
     (lower (strip (takeWhile (\<lambda>x. x \<noteq> CHR '':'') seg)),
      strip (tl (dropWhile (\<lambda>x. x \<noteq> CHR '':'') seg)))"

definition spec_parse :: "string \<Rightarrow> string \<rightharpoonup> string" where
  "spec_parse txt =
     map_of (rev (map spec_entry (filter (\<lambda>seg. CHR '':'' \<in> set seg) (split_chr CHR '';'' txt))))"


section \<open>Library functions and configuration\<close>

text \<open>
  The functions of the Python standard library and of \<open>requests\<close>/\<open>urllib\<close> that webhook.py
  calls and that are not written out above are parameters of the model, so every theorem
  holds for whatever they compute:
  \<^item> \<open>float_of_str s\<close> is \<open>float(s)\<close>, \<open>None\<close> when it raises \<open>ValueError\<close>;
  \<^item> \<open>round_double\<close> rounds an exact real to the nearest double;
  \<^item> \<open>round_ndigits x n\<close> is \<open>round(x, n)\<close> and \<open>str_of_float x\<close> is \<open>str(x)\<close>;
  \<^item> \<open>b64decode s\<close> is \<open>base64.b64decode(s)\<close>, \<open>None\<close> when it raises \<open>binascii.Error\<close>
    (\<open>py_b64decode\<close> below writes out what Python's decoder computes);
  \<^item> \<open>b64encode\<close>, \<open>hmac_sha256 key msg\<close> (the digest of \<open>hmac.new(key, msg, sha256)\<close>),
    \<open>json_dumps\<close> and \<open>urljoin\<close> are the functions of these names.
\<close>

record pylib =
  float_of_str :: "string \<Rightarrow> pyfloat option"
  round_double :: "real \<Rightarrow> pyfloat"
  round_ndigits :: "pyfloat \<Rightarrow> int \<Rightarrow> pyfloat"
  str_of_float :: "pyfloat \<Rightarrow> string"
  b64decode :: "string \<Rightarrow> string option"
  b64encode :: "string \<Rightarrow> string"
  hmac_sha256 :: "string \<Rightarrow> string \<Rightarrow> string"
  json_dumps :: "json \<Rightarrow> string"
  urljoin :: "string \<Rightarrow> string \<Rightarrow> string"

text \<open>\<open>float(x)\<close> where \<open>x\<close> may be \<open>None\<close>: \<open>float(None)\<close> raises \<open>TypeError\<close>.\<close>

definition py_float :: "pylib \<Rightarrow> string option \<Rightarrow> pyfloat option" where
  "py_float L x = (case x of None \<Rightarrow> None | Some s \<Rightarrow> float_of_str L s)"

text \<open>The module-level configuration, read from the environment at start-up.\<close>

record config =
  COINBASE_API_KEY :: string
  COINBASE_API_SECRET :: string
  COINBASE_PASSPHRASE :: string
  ALERT_SECRET :: string
  MAX_USD_PER_ORDER :: pyfloat
  MIN_SECONDS_BETWEEN_ORDERS :: int
  COINBASE_API_BASE :: string

text \<open>
  What the outside world supplies while one request is handled: the two readings of
  \<open>time.time()\<close> (in the handler and in the signer) and the behaviour of
  \<open>requests.post\<close>, which either raises (timeout, connection refused) or yields a response
  with a status code, the result of \<open>r.json()\<close> (\<open>None\<close> when it raises) and \<open>r.text\<close>.
\<close>

datatype http_outcome = ConnectionFailed | HttpResponse int "json option" string

record io =
  clock_handler :: real
  clock_signer :: real
  http_post :: "string \<Rightarrow> dict \<Rightarrow> string \<Rightarrow> http_outcome"

section \<open>The base64 decoder\<close>






section \<open>The sqlite store\<close>

text \<open>
  The \<open>alerts\<close> table is the list of its rows in insertion order (the column
  \<open>created_at\<close>, filled in by sqlite, is left out); the \<open>meta\<close> table is a map from key to
  value. The \<open>trace\<close> lists, in order, the writes to the store and the HTTP requests sent.
\<close>

record alert_row =
  row_id :: nat
  row_tv_id :: "string option"
  row_raw :: string
  row_symbol :: "string option"
  row_action :: "string option"
  row_amount :: pyfloat
  row_status :: string
  row_response :: string

datatype effect =
    DbInsertAlert alert_row
  | DbSetMeta string string
  | HttpPost string dict string

record world =
  alerts :: "alert_row list"
  meta :: "string \<rightharpoonup> string"
  trace :: "effect list"

fun is_insert :: "effect \<Rightarrow> bool" where
  "is_insert (DbInsertAlert r) = True"
| "is_insert e = False"

fun is_checkpoint_write :: "effect \<Rightarrow> bool" where
  "is_checkpoint_write (DbSetMeta k v) = True"
| "is_checkpoint_write e = False"

fun is_exchange_call :: "effect \<Rightarrow> bool" where
  "is_exchange_call (HttpPost url hs b) = True"
| "is_exchange_call e = False"

definition count_inserts :: "world \<Rightarrow> nat" where
  "count_inserts w = length (filter is_insert (trace w))"

definition count_checkpoint_writes :: "world \<Rightarrow> nat" where
  "count_checkpoint_writes w = length (filter is_checkpoint_write (trace w))"

definition count_exchange_calls :: "world \<Rightarrow> nat" where
  "count_exchange_calls w = length (filter is_exchange_call (trace w))"

definition get_last_order_ts :: "pylib \<Rightarrow> world \<Rightarrow> pyfloat" where
  "get_last_order_ts L w =
     (case meta w ''last_order_ts'' of
        Some v \<Rightarrow> (case float_of_str L v of Some x \<Rightarrow> x | None \<Rightarrow> Fin 0)
      | None \<Rightarrow> Fin 0)"

definition set_last_order_ts :: "pylib \<Rightarrow> pyfloat \<Rightarrow> world \<Rightarrow> world" where
  "set_last_order_ts L ts w =
     w\<lparr>meta := (meta w)(''last_order_ts'' \<mapsto> str_of_float L ts),
       trace := trace w @ [DbSetMeta ''last_order_ts'' (str_of_float L ts)]\<rparr>"

text \<open>\<open>AUTOINCREMENT\<close>: the next id is one more than the largest id in the table.\<close>

definition next_row_id :: "alert_row list \<Rightarrow> nat" where
  "next_row_id rows = Suc (fold max (map row_id rows) 0)"

definition insert_alert ::
  "pylib \<Rightarrow> string option \<Rightarrow> string \<Rightarrow> string option \<Rightarrow> string option \<Rightarrow> pyfloat \<Rightarrow> string \<Rightarrow> json
     \<Rightarrow> world \<Rightarrow> nat \<times> world" where
  "insert_alert L tv_id raw symbol action amount status response w =
     (let row = \<lparr>row_id = next_row_id (alerts w), row_tv_id = tv_id, row_raw = raw,
                 row_symbol = symbol, row_action = action, row_amount = amount,
                 row_status = status, row_response = json_dumps L response\<rparr>
      in (row_id row, w\<lparr>alerts := alerts w @ [row], trace := trace w @ [DbInsertAlert row]\<rparr>))"

definition already_processed :: "world \<Rightarrow> string option \<Rightarrow> bool" where
  "already_processed w tv_id =
     (if py_not tv_id then False
      else filter (\<lambda>r. row_tv_id r = tv_id) (alerts w) \<noteq> [])"

section \<open>Signing and order placement\<close>

text \<open>
  \<open>cb_auth_headers\<close> reads the clock (\<open>now\<close>); \<open>body or ""\<close> turns a missing body into the
  empty string. \<open>place_market_order_by_funds\<close> builds the order, signs it and posts it;
  only the decoding of the response sits inside its \<open>try\<close>.
\<close>

definition cb_auth_headers :: "pylib \<Rightarrow> config \<Rightarrow> real \<Rightarrow> string \<Rightarrow> string \<Rightarrow> string option \<Rightarrow> exn + dict" where
  "cb_auth_headers L C now method path body =
     (let timestamp = str_int (int_of_float now);
          message = timestamp @ upper method @ path @ (case body of None \<Rightarrow> [] | Some b \<Rightarrow> b)
      in case b64decode L (COINBASE_API_SECRET C) of
           None \<Rightarrow> Inl BinasciiError
         | Some secret \<Rightarrow>
             let signature = b64encode L (hmac_sha256 L secret message)
             in Inr [(''CB-ACCESS-KEY'', COINBASE_API_KEY C),
                     (''CB-ACCESS-SIGN'', signature),
                     (''CB-ACCESS-TIMESTAMP'', timestamp),
                     (''CB-ACCESS-PASSPHRASE'', COINBASE_PASSPHRASE C),
                     (''Content-Type'', ''application/json'')])"

definition place_market_order_by_funds ::
  "pylib \<Rightarrow> config \<Rightarrow> io \<Rightarrow> string option \<Rightarrow> string \<Rightarrow> pyfloat \<Rightarrow> world \<Rightarrow> (exn + int \<times> json) \<times> world" where
  "place_market_order_by_funds L C env product_id side usd_amount w =
     (let path = ''/orders'';
          body = json_dumps L (JObj [(''type'', JStr ''market''),
                                     (''side'', JStr side),
                                     (''product_id'', json_of_optstr product_id),
                                     (''funds'', JStr (str_of_float L (round_ndigits L usd_amount 2)))]);
          url = urljoin L (COINBASE_API_BASE C) path
      in case cb_auth_headers L C (clock_signer env) ''POST'' path (Some body) of
           Inl e \<Rightarrow> (Inl e, w)
         | Inr headers \<Rightarrow>
             let w' = w\<lparr>trace := trace w @ [HttpPost url headers body]\<rparr>
             in (case http_post env url headers body of
                   ConnectionFailed \<Rightarrow> (Inl RequestException, w')
                 | HttpResponse status_code js text \<Rightarrow>
                     (case js of
                        Some j \<Rightarrow> (Inr (status_code, j), w')
                      | None \<Rightarrow> (Inr (status_code, JStr text), w'))))"

section \<open>The webhook handler\<close>

text \<open>
  \<open>jsonify\<close> serialises its single argument, or the list of its arguments when it is given
  several (the program never calls it without arguments). A view returns either a response
  alone, which has status 200, or a pair of a response and a status.
\<close>

definition jsonify :: "json list \<Rightarrow> json" where
  "jsonify args = (case args of [] \<Rightarrow> JObj [] | [x] \<Rightarrow> x | _ \<Rightarrow> JArr args)"

datatype view_return = Resp json | RespStatus json int

fun http_status :: "view_return \<Rightarrow> int" where
  "http_status (Resp b) = 200"
| "http_status (RespStatus b s) = s"

fun http_body :: "view_return \<Rightarrow> json" where
  "http_body (Resp b) = b"
| "http_body (RespStatus b s) = b"

definition tradingview_webhook ::
  "pylib \<Rightarrow> config \<Rightarrow> io \<Rightarrow> string \<Rightarrow> world \<Rightarrow> (exn + view_return) \<times> world" where
  "tradingview_webhook L C env request_data w =
     (let raw = strip request_data in
      if raw = [] then
        (Inr (RespStatus (jsonify [JObj [(''error'', JStr ''empty body'')]]) 400), w)
      else
      case parse_alert_text raw of
        Inl e \<Rightarrow> (Inl e, w)
      | Inr data \<Rightarrow>
      if dict_get_default data ''secret'' [] \<noteq> ALERT_SECRET C then
        (Inr (RespStatus (jsonify [JObj [(''error'', JStr ''invalid secret'')]]) 401), w)
      else
      let tv_id = py_or (py_or (dict_get data ''tv_id'') (dict_get data ''id'')) None in
      if truthy tv_id \<and> already_processed w tv_id then
        (Inr (RespStatus (jsonify [JObj [(''error'', JStr ''duplicate alert''),
                                         (''tv_id'', json_of_optstr tv_id)]]) 409), w)
      else
      let symbol = dict_get data ''symbol'';
          action = dict_get data ''action'';
          amount = dict_get data ''amount'' in
      if py_not symbol \<or> py_not action \<or> py_not amount then
        (Inr (RespStatus (jsonify [JObj [(''error'', JStr ''missing fields''),
                                         (''received'', json_of_dict data)]]) 400), w)
      else
      case py_float L amount of
        None \<Rightarrow> (Inr (Resp (jsonify [JObj [(''error'', JStr ''invalid amount'')], JInt 400])), w)
      | Some usd_amount \<Rightarrow>
      if float_le usd_amount (Fin 0) \<or> float_gt usd_amount (MAX_USD_PER_ORDER C) then
        (Inr (RespStatus (jsonify [JObj [(''error'', JStr ''amount out of bounds''),
                                         (''max_allowed'', JFloat (MAX_USD_PER_ORDER C))]]) 400), w)
      else
      let last_ts = get_last_order_ts L w;
          now_ts = Fin (clock_handler env) in
      if float_lt (float_sub (round_double L) now_ts last_ts)
                  (Fin (real_of_int (MIN_SECONDS_BETWEEN_ORDERS C))) then
        (Inr (RespStatus (jsonify [JObj [(''error'', JStr ''rate limit''),
                                         (''min_seconds'', JInt (MIN_SECONDS_BETWEEN_ORDERS C))]]) 429), w)
      else
      case action of
        None \<Rightarrow> (Inl AttributeError, w)
      | Some a \<Rightarrow>
      let side = (if startswith (lower a) ''buy'' then ''buy'' else ''sell'') in
      case place_market_order_by_funds L C env symbol side usd_amount w of
        (Inl e, w1) \<Rightarrow> (Inl e, w1)
      | (Inr (status_code, resp), w1) \<Rightarrow>
      let w2 = snd (insert_alert L tv_id raw symbol action usd_amount
                      (if status_code \<notin> {200, 201} then ''attempted'' else ''placed'') resp w1);
          w3 = set_last_order_ts L now_ts w2 in
      if status_code \<in> {200, 201} then
        (Inr (RespStatus (jsonify [JObj [(''status'', JStr ''ok''), (''code'', JInt status_code),
                                         (''response'', resp)]]) 200), w3)
      else
        (Inr (RespStatus (jsonify [JObj [(''status'', JStr ''error''), (''code'', JInt status_code),
                                         (''response'', resp)]]) 500), w3))"

section \<open>Reaching a step of the handler\<close>

text \<open>
  The handler rejects a request at the first failing check and returns at once. The
  predicates below say that a request gets as far as a given check; each is the
  conjunction of the negated guards of the \<open>if\<close>s before it. \<open>tv_id_of\<close> and \<open>order_side\<close> are
  the values of the handler's variables \<open>tv_id\<close> and \<open>side\<close>.
\<close>

definition tv_id_of :: "dict \<Rightarrow> string option" where
  "tv_id_of data = py_or (py_or (dict_get data ''tv_id'') (dict_get data ''id'')) None"

definition order_side :: "string \<Rightarrow> string" where
  "order_side a = (if startswith (lower a) ''buy'' then ''buy'' else ''sell'')"

definition reaches_dedupe :: "config \<Rightarrow> string \<Rightarrow> dict \<Rightarrow> bool" where
  "reaches_dedupe C request_data data \<longleftrightarrow>
     strip request_data \<noteq> [] \<and>
     parse_alert_text (strip request_data) = Inr data \<and>
     dict_get_default data ''secret'' [] = ALERT_SECRET C"

definition reaches_amount_parse :: "config \<Rightarrow> world \<Rightarrow> string \<Rightarrow> dict \<Rightarrow> bool" where
  "reaches_amount_parse C w request_data data \<longleftrightarrow>
     reaches_dedupe C request_data data \<and>
     \<not> (truthy (tv_id_of data) \<and> already_processed w (tv_id_of data)) \<and>
     truthy (dict_get data ''symbol'') \<and>
     truthy (dict_get data ''action'') \<and>
     truthy (dict_get data ''amount'')"

definition reaches_bounds_check :: "pylib \<Rightarrow> config \<Rightarrow> world \<Rightarrow> string \<Rightarrow> dict \<Rightarrow> pyfloat \<Rightarrow> bool" where
  "reaches_bounds_check L C w request_data data x \<longleftrightarrow>
     reaches_amount_parse C w request_data data \<and>
     py_float L (dict_get data ''amount'') = Some x"

definition reaches_rate_limit :: "pylib \<Rightarrow> config \<Rightarrow> world \<Rightarrow> string \<Rightarrow> dict \<Rightarrow> pyfloat \<Rightarrow> bool" where
  "reaches_rate_limit L C w request_data data x \<longleftrightarrow>
     reaches_bounds_check L C w request_data data x \<and>
     \<not> float_le x (Fin 0) \<and>
     \<not> float_gt x (MAX_USD_PER_ORDER C)"

definition reaches_placement ::
  "pylib \<Rightarrow> config \<Rightarrow> io \<Rightarrow> world \<Rightarrow> string \<Rightarrow> dict \<Rightarrow> pyfloat \<Rightarrow> bool" where
  "reaches_placement L C env w request_data data x \<longleftrightarrow>
     reaches_rate_limit L C w request_data data x \<and>
     \<not> float_lt (float_sub (round_double L) (Fin (clock_handler env)) (get_last_order_ts L w))
                 (Fin (real_of_int (MIN_SECONDS_BETWEEN_ORDERS C)))"

text \<open>The request carries the id \<open>t\<close>: in the field \<open>tv_id\<close>, or in \<open>id\<close> when there is
  no field \<open>tv_id\<close>.\<close>

definition carries_id :: "dict \<Rightarrow> string \<Rightarrow> bool" where
  "carries_id data t \<longleftrightarrow>
     t \<noteq> [] \<and>
     (dict_get data ''tv_id'' = Some t \<or>
      (dict_get data ''tv_id'' = None \<and> dict_get data ''id'' = Some t))"

text \<open>The terminal responses of the handler.\<close>

definition error_body :: "string \<Rightarrow> (string \<times> json) list \<Rightarrow> json" where
  "error_body msg rest = JObj ((''error'', JStr msg) # rest)"

definition outcome_body :: "string \<Rightarrow> int \<Rightarrow> json \<Rightarrow> json" where
  "outcome_body st code resp = JObj [(''status'', JStr st), (''code'', JInt code), (''response'', resp)]"

section \<open>Concrete inputs\<close>

text \<open>
  A library, a configuration, stores and exchanges on which the model is run below.
  The library is a stand-in that agrees with Python on the inputs used:
  \<open>float\<close> on unsigned decimal integer literals (and rejecting \<open>abc\<close>), \<open>round(x, 2)\<close> and
  \<open>str\<close> on integral floats, \<open>b64decode\<close> on the secret \<open>c2VjcmV0\<close> and on \<open>abc\<close>
  (rejected: incorrect padding), \<open>urljoin\<close> on a base without path. The digest, the
  base64 encoder and the JSON printer are placeholders; no statement depends on them.
\<close>

definition is_digit :: "char \<Rightarrow> bool" where
  "is_digit c = (let n = (of_char c :: nat) in 48 \<le> n \<and> n \<le> 57)"

definition nat_of_digits :: "string \<Rightarrow> nat" where
  "nat_of_digits s = foldl (\<lambda>a c. 10 * a + (of_char c - 48)) 0 s"

definition sample_float_of_str :: "string \<Rightarrow> pyfloat option" where
  "sample_float_of_str s =
     (if s \<noteq> [] \<and> list_all is_digit s then Some (Fin (real (nat_of_digits s))) else None)"

definition sample_str_of_float :: "pyfloat \<Rightarrow> string" where
  "sample_str_of_float x =
     (case x of Fin r \<Rightarrow> str_int \<lfloor>r\<rfloor> @ ''.0'' | PInf \<Rightarrow> ''inf'' | NInf \<Rightarrow> ''-inf'' | NaN \<Rightarrow> ''nan'')"

definition sample_lib :: pylib where
  "sample_lib =
     \<lparr>float_of_str = sample_float_of_str,
      round_double = Fin,
      round_ndigits = (\<lambda>x n. x),
      str_of_float = sample_str_of_float,
      b64decode = (\<lambda>s. if s = ''c2VjcmV0'' then Some ''secret'' else None),
      b64encode = (\<lambda>s. ''b64('' @ s @ '')''),
      hmac_sha256 = (\<lambda>key msg. ''hmac('' @ key @ '','' @ msg @ '')''),
      json_dumps = (\<lambda>j. ''json''),
      urljoin = (\<lambda>base path. base @ path)\<rparr>"

definition sample_config :: config where
  "sample_config =
     \<lparr>COINBASE_API_KEY = ''key'',
      COINBASE_API_SECRET = ''c2VjcmV0'',
      COINBASE_PASSPHRASE = ''pass'',
      ALERT_SECRET = ''changeme'',
      MAX_USD_PER_ORDER = Fin 100,
      MIN_SECONDS_BETWEEN_ORDERS = 1,
      COINBASE_API_BASE = ''https://api-public.sandbox.pro.coinbase.com''\<rparr>"

definition empty_store :: world where
  "empty_store = \<lparr>alerts = [], meta = Map.empty, trace = []\<rparr>"

definition exchange_created :: io where
  "exchange_created =
     \<lparr>clock_handler = 1700000000, clock_signer = 1700000000,
      http_post = (\<lambda>url headers body. HttpResponse 201 (Some (JObj [(''id'', JStr ''X'')])) ''{id: X}'')\<rparr>"

definition exchange_bad_gateway :: io where
  "exchange_bad_gateway =
     \<lparr>clock_handler = 1700000000, clock_signer = 1700000000,
      http_post = (\<lambda>url headers body. HttpResponse 502 None ''Bad Gateway'')\<rparr>"

definition exchange_unreachable :: io where
  "exchange_unreachable =
     \<lparr>clock_handler = 1700000000, clock_signer = 1700000000,
      http_post = (\<lambda>url headers body. ConnectionFailed)\<rparr>"

definition zero_max_config :: config where
  "zero_max_config = sample_config\<lparr>MAX_USD_PER_ORDER := Fin 0\<rparr>"

definition bad_secret_config :: config where
  "bad_secret_config = sample_config\<lparr>COINBASE_API_SECRET := ''abc''\<rparr>"



definition alert_buy_100 :: string where
  "alert_buy_100 = ''secret: changeme; symbol: BTC-USD; action: buy; amount: 100''"

definition alert_buy_0 :: string where
  "alert_buy_0 = ''secret: changeme; symbol: BTC-USD; action: buy; amount: 0''"

definition alert_buy_abc :: string where
  "alert_buy_abc = ''secret: changeme; symbol: BTC-USD; action: buy; amount: abc''"

definition alert_sell_50 :: string where
  "alert_sell_50 = ''secret: changeme; symbol: BTC-USD; action: sell; amount: 50''"

definition alert_42 :: string where
  "alert_42 = ''secret: changeme; tv_id: 42; symbol: BTC-USD; action: buy; amount: 10''"

definition alert_42_by_id :: string where
  "alert_42_by_id = ''secret: changeme; id: 42; symbol: BTC-USD; action: buy; amount: 10''"

definition alert_42_wrong_secret :: string where
  "alert_42_wrong_secret = ''secret: guess; tv_id: 42; symbol: BTC-USD; action: buy; amount: 10''"

definition alert_42_amount_0 :: string where
  "alert_42_amount_0 = ''secret: changeme; tv_id: 42; symbol: BTC-USD; action: buy; amount: 0''"

definition alert_blank_ids :: string where
  "alert_blank_ids = ''secret: changeme; tv_id: ; id: ; symbol: BTC-USD; action: buy; amount: 10''"

definition row_42 :: alert_row where
  "row_42 = \<lparr>row_id = 1, row_tv_id = Some ''42'', row_raw = alert_42, row_symbol = Some ''BTC-USD'',
             row_action = Some ''buy'', row_amount = Fin 10, row_status = ''placed'',
             row_response = ''json''\<rparr>"

definition store_with_42 :: world where
  "store_with_42 = \<lparr>alerts = [row_42], meta = Map.empty, trace = []\<rparr>"

section \<open>Properties of the parser\<close>

lemma map_of_update_alist: "map_of (AList.update k v d) = (map_of d)(k \<mapsto> v)"
  by (rule update_conv')

lemma parse_loop_spec:
  "\<exists>d. parse_loop ps parts = Inr d \<and>
       map_of d = map_of parts ++ map_of (rev (map spec_entry (filter (\<lambda>seg. CHR '':'' \<in> set seg) ps)))"
proof (induction ps arbitrary: parts)
  case Nil
  then show ?case by simp
next
  case (Cons p ps)
  show ?case
  proof (cases "CHR '':'' \<in> set p")
    case True
    let ?parts' = "AList.update (fst (spec_entry p)) (snd (spec_entry p)) parts"
    from True have step: "parse_step p parts = Inr ?parts'"
      by (simp add: parse_step_def split_once_def spec_entry_def)
    from Cons.IH [of ?parts']
    obtain d where run: "parse_loop ps ?parts' = Inr d"
      and look: "map_of d = map_of ?parts' ++
          map_of (rev (map spec_entry (filter (\<lambda>seg. CHR '':'' \<in> set seg) ps)))"
      by blast
    have "map_of d = map_of parts ++
        map_of (rev (map spec_entry (filter (\<lambda>seg. CHR '':'' \<in> set seg) (p # ps))))"
      using True look
      by (simp add: map_of_update_alist map_add_def fun_eq_iff split: option.splits)
    then show ?thesis using step run by simp
  next
    case False
    then have "parse_step p parts = Inr parts" by (simp add: parse_step_def)
    with Cons.IH [of parts] False show ?thesis by simp
  qed
qed

lemma parse_alert_text_total:
  "\<exists>d. parse_alert_text txt = Inr d \<and> map_of d = spec_parse txt"
  using parse_loop_spec [of "split_chr CHR '';'' txt" "[]"]
  by (simp add: parse_alert_text_def spec_parse_def)

text \<open>
  Claim C7. For every raw text \<open>parse_alert_text\<close> returns a dictionary and never raises;
  the dictionary is the one the specification describes: the text is split on \<open>;\<close>, the
  segments without \<open>:\<close> are dropped, every other segment is split at its first \<open>:\<close> into
  the lower-cased trimmed key and the trimmed value, and the last segment with a given key
  wins. On \<open>secret: s; symbol: BTC-USD; action: buy; amount: 10\<close> the result is
  \<open>{secret: s, symbol: BTC-USD, action: buy, amount: 10}\<close>.
\<close>

theorem parse_alert_text_refines_spec:
  "(\<exists>d. parse_alert_text txt = Inr d \<and> map_of d = spec_parse txt) \<and>
   parse_alert_text ''secret: s; symbol: BTC-USD; action: buy; amount: 10'' =
     Inr [(''secret'', ''s''), (''symbol'', ''BTC-USD''), (''action'', ''buy''), (''amount'', ''10'')]"
proof
  show "\<exists>d. parse_alert_text txt = Inr d \<and> map_of d = spec_parse txt"
    by (rule parse_alert_text_total)
  show "parse_alert_text ''secret: s; symbol: BTC-USD; action: buy; amount: 10'' =
     Inr [(''secret'', ''s''), (''symbol'', ''BTC-USD''), (''action'', ''buy''), (''amount'', ''10'')]"
    by code_simp
qed

section \<open>The handler, check by check\<close>

lemma webhook_empty_body:
  "strip rd = [] \<Longrightarrow>
   tradingview_webhook L C env rd w = (Inr (RespStatus (error_body ''empty body'' []) 400), w)"
  by (simp add: tradingview_webhook_def jsonify_def error_body_def)

lemma webhook_invalid_secret:
  "strip rd \<noteq> [] \<Longrightarrow> parse_alert_text (strip rd) = Inr data \<Longrightarrow>
   dict_get_default data ''secret'' [] \<noteq> ALERT_SECRET C \<Longrightarrow>
   tradingview_webhook L C env rd w = (Inr (RespStatus (error_body ''invalid secret'' []) 401), w)"
  by (simp add: tradingview_webhook_def jsonify_def error_body_def)

lemma webhook_duplicate:
  "reaches_dedupe C rd data \<Longrightarrow> truthy (tv_id_of data) \<Longrightarrow> already_processed w (tv_id_of data) \<Longrightarrow>
   tradingview_webhook L C env rd w =
     (Inr (RespStatus (error_body ''duplicate alert'' [(''tv_id'', json_of_optstr (tv_id_of data))]) 409), w)"
  by (simp add: tradingview_webhook_def reaches_dedupe_def tv_id_of_def jsonify_def error_body_def Let_def)

lemma webhook_missing_fields:
  "reaches_dedupe C rd data \<Longrightarrow> \<not> (truthy (tv_id_of data) \<and> already_processed w (tv_id_of data)) \<Longrightarrow>
   py_not (dict_get data ''symbol'') \<or> py_not (dict_get data ''action'') \<or> py_not (dict_get data ''amount'') \<Longrightarrow>
   tradingview_webhook L C env rd w =
     (Inr (RespStatus (error_body ''missing fields'' [(''received'', json_of_dict data)]) 400), w)"
  by (simp add: tradingview_webhook_def reaches_dedupe_def tv_id_of_def jsonify_def error_body_def Let_def)

lemma webhook_invalid_amount:
  "reaches_amount_parse C w rd data \<Longrightarrow> py_float L (dict_get data ''amount'') = None \<Longrightarrow>
   tradingview_webhook L C env rd w =
     (Inr (Resp (JArr [error_body ''invalid amount'' [], JInt 400])), w)"
  by (simp add: tradingview_webhook_def reaches_amount_parse_def reaches_dedupe_def tv_id_of_def
      py_not_def jsonify_def error_body_def Let_def)

lemma webhook_out_of_bounds:
  "reaches_bounds_check L C w rd data x \<Longrightarrow>
   float_le x (Fin 0) \<or> float_gt x (MAX_USD_PER_ORDER C) \<Longrightarrow>
   tradingview_webhook L C env rd w =
     (Inr (RespStatus (error_body ''amount out of bounds''
            [(''max_allowed'', JFloat (MAX_USD_PER_ORDER C))]) 400), w)"
  by (simp add: tradingview_webhook_def reaches_bounds_check_def reaches_amount_parse_def
      reaches_dedupe_def tv_id_of_def py_not_def jsonify_def error_body_def Let_def)

lemma webhook_rate_limited:
  "reaches_rate_limit L C w rd data x \<Longrightarrow>
   float_lt (float_sub (round_double L) (Fin (clock_handler env)) (get_last_order_ts L w))
            (Fin (real_of_int (MIN_SECONDS_BETWEEN_ORDERS C))) \<Longrightarrow>
   tradingview_webhook L C env rd w =
     (Inr (RespStatus (error_body ''rate limit''
            [(''min_seconds'', JInt (MIN_SECONDS_BETWEEN_ORDERS C))]) 429), w)"
  by (simp add: tradingview_webhook_def reaches_rate_limit_def reaches_bounds_check_def
      reaches_amount_parse_def reaches_dedupe_def tv_id_of_def py_not_def jsonify_def
      error_body_def Let_def)

lemma webhook_placement:
  "reaches_placement L C env w rd data x \<Longrightarrow> dict_get data ''action'' = Some a \<Longrightarrow>
   tradingview_webhook L C env rd w =
     (case place_market_order_by_funds L C env (dict_get data ''symbol'') (order_side a) x w of
        (Inl e, w1) \<Rightarrow> (Inl e, w1)
      | (Inr (status_code, resp), w1) \<Rightarrow>
          (Inr (RespStatus (outcome_body (if status_code \<in> {200, 201} then ''ok'' else ''error'')
                              status_code resp)
                           (if status_code \<in> {200, 201} then 200 else 500)),
           set_last_order_ts L (Fin (clock_handler env))
             (snd (insert_alert L (tv_id_of data) (strip rd) (dict_get data ''symbol'')
                     (dict_get data ''action'') x
                     (if status_code \<in> {200, 201} then ''placed'' else ''attempted'') resp w1))))"
  by (auto simp add: tradingview_webhook_def reaches_placement_def reaches_rate_limit_def reaches_bounds_check_def
      reaches_amount_parse_def reaches_dedupe_def tv_id_of_def py_not_def jsonify_def order_side_def
      outcome_body_def Let_def split: prod.splits sum.splits)

lemma truthy_SomeD: "truthy x \<Longrightarrow> \<exists>s. x = Some s \<and> s \<noteq> []"
  by (cases x) (simp_all add: truthy_def)

lemma webhook_409_only_duplicates:
  "fst (tradingview_webhook L C env rd w) = Inr (RespStatus b 409) \<Longrightarrow>
   \<exists>data. reaches_dedupe C rd data \<and> truthy (tv_id_of data) \<and> already_processed w (tv_id_of data)"
  by (auto simp add: tradingview_webhook_def reaches_dedupe_def tv_id_of_def Let_def
      split: if_splits sum.splits option.splits prod.splits)

lemma webhook_429_only_rate_limit:
  "fst (tradingview_webhook L C env rd w) = Inr (RespStatus b 429) \<Longrightarrow>
   float_lt (float_sub (round_double L) (Fin (clock_handler env)) (get_last_order_ts L w))
            (Fin (real_of_int (MIN_SECONDS_BETWEEN_ORDERS C)))"
  by (auto simp add: tradingview_webhook_def Let_def
      split: if_splits sum.splits option.splits prod.splits)

lemma webhook_unchanged_unless_placement:
  "(\<forall>data x. \<not> reaches_placement L C env w rd data x) \<Longrightarrow>
   snd (tradingview_webhook L C env rd w) = w"
  by (auto simp add: tradingview_webhook_def reaches_placement_def reaches_rate_limit_def reaches_bounds_check_def
      reaches_amount_parse_def reaches_dedupe_def tv_id_of_def py_not_def Let_def
      split: if_splits sum.splits option.splits prod.splits)

lemma float_lt_irrefl: "\<not> float_lt x x"
  by (cases x) simp_all

lemma place_order_cases:
  "fst (place_market_order_by_funds L C env product_id side usd_amount w) = Inl BinasciiError \<or>
   fst (place_market_order_by_funds L C env product_id side usd_amount w) = Inl RequestException \<or>
   (\<exists>code resp. fst (place_market_order_by_funds L C env product_id side usd_amount w) = Inr (code, resp))"
  by (auto simp add: place_market_order_by_funds_def cb_auth_headers_def Let_def
      split: option.splits http_outcome.splits)

lemma webhook_no_400_after_bounds:
  assumes "reaches_rate_limit L C w rd data x"
  shows "fst (tradingview_webhook L C env rd w) \<noteq> Inr (RespStatus b 400)"
proof (cases "float_lt (float_sub (round_double L) (Fin (clock_handler env)) (get_last_order_ts L w))
            (Fin (real_of_int (MIN_SECONDS_BETWEEN_ORDERS C)))")
  case True
  from webhook_rate_limited [OF assms True] show ?thesis by simp
next
  case False
  with assms have rp: "reaches_placement L C env w rd data x"
    by (simp add: reaches_placement_def)
  from assms have "truthy (dict_get data ''action'')"
    by (simp add: reaches_rate_limit_def reaches_bounds_check_def reaches_amount_parse_def)
  then obtain a where a: "dict_get data ''action'' = Some a"
    using truthy_SomeD by blast
  show ?thesis
    unfolding webhook_placement [OF rp a]
    by (auto split: prod.splits sum.splits)
qed

section \<open>Running the model on the concrete inputs\<close>

lemmas parser_eval =
  parse_alert_text_def parse_step_def split_once_def strip_def lower_def lower_chr_def is_space_def

lemmas lookup_eval =
  dict_get_def dict_get_default_def tv_id_of_def py_or_def py_not_def truthy_def py_float_def

lemma sample_float_of_str_eval:
  "float_of_str sample_lib ''100'' = Some (Fin 100)"
  "float_of_str sample_lib ''50'' = Some (Fin 50)"
  "float_of_str sample_lib ''10'' = Some (Fin 10)"
  "float_of_str sample_lib ''0'' = Some (Fin 0)"
  "float_of_str sample_lib ''abc'' = None"
  by (simp_all add: sample_lib_def sample_float_of_str_def is_digit_def nat_of_digits_def)

lemma parse_alert_buy_100:
  "strip alert_buy_100 = alert_buy_100"
  "alert_buy_100 \<noteq> []"
  "parse_alert_text alert_buy_100 =
     Inr [(''secret'', ''changeme''), (''symbol'', ''BTC-USD''), (''action'', ''buy''), (''amount'', ''100'')]"
  by (simp_all add: alert_buy_100_def parser_eval)

lemma parse_alert_buy_0:
  "strip alert_buy_0 = alert_buy_0"
  "alert_buy_0 \<noteq> []"
  "parse_alert_text alert_buy_0 =
     Inr [(''secret'', ''changeme''), (''symbol'', ''BTC-USD''), (''action'', ''buy''), (''amount'', ''0'')]"
  by (simp_all add: alert_buy_0_def parser_eval)

lemma reaches_bounds_alert_buy_100:
  "reaches_bounds_check sample_lib sample_config empty_store alert_buy_100
     [(''secret'', ''changeme''), (''symbol'', ''BTC-USD''), (''action'', ''buy''), (''amount'', ''100'')]
     (Fin 100)"
  by (simp add: reaches_bounds_check_def reaches_amount_parse_def reaches_dedupe_def
      parse_alert_buy_100 lookup_eval sample_float_of_str_eval sample_config_def)

lemma reaches_bounds_alert_buy_0:
  "reaches_bounds_check sample_lib zero_max_config empty_store alert_buy_0
     [(''secret'', ''changeme''), (''symbol'', ''BTC-USD''), (''action'', ''buy''), (''amount'', ''0'')]
     (Fin 0)"
  by (simp add: reaches_bounds_check_def reaches_amount_parse_def reaches_dedupe_def
      parse_alert_buy_0 lookup_eval sample_float_of_str_eval sample_config_def zero_max_config_def)

section \<open>The bounds check\<close>

text \<open>
  Claim C8, as amended. For every parsed amount \<open>x\<close> that reaches the bounds check, the
  handler answers 400 \<open>{error: "amount out of bounds", max_allowed}\<close> exactly when
  \<open>x <= 0 or x > MAX_USD_PER_ORDER\<close>. In particular amount 0 and every amount greater than
  \<open>MAX_USD_PER_ORDER\<close> are rejected. An amount equal to \<open>MAX_USD_PER_ORDER\<close> is rejected
  exactly when \<open>MAX_USD_PER_ORDER <= 0\<close>; it is accepted for every positive maximum.
\<close>

theorem bounds_check_rejects_iff:
  assumes "reaches_bounds_check L C w rd data x"
  shows "(fst (tradingview_webhook L C env rd w) =
            Inr (RespStatus (error_body ''amount out of bounds''
                   [(''max_allowed'', JFloat (MAX_USD_PER_ORDER C))]) 400)
          \<longleftrightarrow> float_le x (Fin 0) \<or> float_gt x (MAX_USD_PER_ORDER C)) \<and>
         (x = Fin 0 \<longrightarrow>
            fst (tradingview_webhook L C env rd w) =
              Inr (RespStatus (error_body ''amount out of bounds''
                     [(''max_allowed'', JFloat (MAX_USD_PER_ORDER C))]) 400)) \<and>
         (float_gt x (MAX_USD_PER_ORDER C) \<longrightarrow>
            fst (tradingview_webhook L C env rd w) =
              Inr (RespStatus (error_body ''amount out of bounds''
                     [(''max_allowed'', JFloat (MAX_USD_PER_ORDER C))]) 400)) \<and>
         (x = MAX_USD_PER_ORDER C \<longrightarrow>
            (fst (tradingview_webhook L C env rd w) =
               Inr (RespStatus (error_body ''amount out of bounds''
                      [(''max_allowed'', JFloat (MAX_USD_PER_ORDER C))]) 400)
             \<longleftrightarrow> float_le (MAX_USD_PER_ORDER C) (Fin 0)))"
proof -
  let ?rejected = "fst (tradingview_webhook L C env rd w) =
            Inr (RespStatus (error_body ''amount out of bounds''
                   [(''max_allowed'', JFloat (MAX_USD_PER_ORDER C))]) 400)"
  have iff: "?rejected \<longleftrightarrow> float_le x (Fin 0) \<or> float_gt x (MAX_USD_PER_ORDER C)"
  proof
    assume r: ?rejected
    show "float_le x (Fin 0) \<or> float_gt x (MAX_USD_PER_ORDER C)"
    proof (rule ccontr)
      assume "\<not> ?thesis"
      with assms have "reaches_rate_limit L C w rd data x"
        by (simp add: reaches_rate_limit_def)
      from webhook_no_400_after_bounds [OF this] r show False by blast
    qed
  next
    assume "float_le x (Fin 0) \<or> float_gt x (MAX_USD_PER_ORDER C)"
    from webhook_out_of_bounds [OF assms this] show ?rejected by simp
  qed
  have zero: "x = Fin 0 \<longrightarrow> ?rejected"
    using iff by simp
  have above: "float_gt x (MAX_USD_PER_ORDER C) \<longrightarrow> ?rejected"
    using iff by simp
  have at_max: "x = MAX_USD_PER_ORDER C \<longrightarrow> (?rejected \<longleftrightarrow> float_le (MAX_USD_PER_ORDER C) (Fin 0))"
    using iff by (auto simp add: float_gt_def float_lt_irrefl)
  from iff zero above at_max show ?thesis by blast
qed

text \<open>With the default maximum of 100, the amount 100 reaches the check and is accepted.\<close>

theorem bounds_check_rejects_iff_witness:
  "reaches_bounds_check sample_lib sample_config empty_store alert_buy_100
     [(''secret'', ''changeme''), (''symbol'', ''BTC-USD''), (''action'', ''buy''), (''amount'', ''100'')]
     (Fin 100) \<and>
   MAX_USD_PER_ORDER sample_config = Fin 100 \<and>
   fst (tradingview_webhook sample_lib sample_config exchange_created alert_buy_100 empty_store) \<noteq>
     Inr (RespStatus (error_body ''amount out of bounds'' [(''max_allowed'', JFloat (Fin 100))]) 400)"
  using bounds_check_rejects_iff [OF reaches_bounds_alert_buy_100, of exchange_created]
    reaches_bounds_alert_buy_100
  by (simp add: sample_config_def float_gt_def)

text \<open>
  The claim as first stated fails when the configured maximum is not positive: with
  \<open>MAX_USD_PER_ORDER = 0\<close> the amount 0 equals the maximum and is rejected.
\<close>

theorem amount_equal_to_max_rejected:
  "reaches_bounds_check sample_lib zero_max_config empty_store alert_buy_0
     [(''secret'', ''changeme''), (''symbol'', ''BTC-USD''), (''action'', ''buy''), (''amount'', ''0'')]
     (Fin 0) \<and>
   MAX_USD_PER_ORDER zero_max_config = Fin 0 \<and>
   tradingview_webhook sample_lib zero_max_config exchange_created alert_buy_0 empty_store =
     (Inr (RespStatus (error_body ''amount out of bounds'' [(''max_allowed'', JFloat (Fin 0))]) 400),
      empty_store)"
  using webhook_out_of_bounds [OF reaches_bounds_alert_buy_0, of exchange_created]
    reaches_bounds_alert_buy_0
  by (simp add: zero_max_config_def sample_config_def)

section \<open>Alerts without an id\<close>

lemma parse_alert_blank_ids:
  "strip alert_blank_ids = alert_blank_ids"
  "alert_blank_ids \<noteq> []"
  "parse_alert_text alert_blank_ids =
     Inr [(''secret'', ''changeme''), (''tv_id'', []), (''id'', []), (''symbol'', ''BTC-USD''),
          (''action'', ''buy''), (''amount'', ''10'')]"
  by (simp_all add: alert_blank_ids_def parser_eval)

text \<open>
  Claim C10. \<open>already_processed\<close> is false for \<open>None\<close> and for the empty string. An alert
  whose resolved id is absent is never answered 409, whatever the store holds. An empty
  \<open>tv_id\<close> field counts as absent: the id is then taken from the \<open>id\<close> field, and when that
  is empty or missing too there is no idempotency key.
\<close>

theorem absent_id_never_duplicate:
  "already_processed w None = False \<and>
   already_processed w (Some []) = False \<and>
   (parse_alert_text (strip rd) = Inr data \<longrightarrow> tv_id_of data = None \<longrightarrow>
      (\<forall>b. fst (tradingview_webhook L C env rd w) \<noteq> Inr (RespStatus b 409))) \<and>
   (dict_get data ''tv_id'' = Some [] \<longrightarrow> dict_get data ''id'' = Some i \<longrightarrow> i \<noteq> [] \<longrightarrow>
      tv_id_of data = Some i) \<and>
   (dict_get data ''tv_id'' = None \<or> dict_get data ''tv_id'' = Some [] \<longrightarrow>
    dict_get data ''id'' = None \<or> dict_get data ''id'' = Some [] \<longrightarrow>
      tv_id_of data = None)"
proof -
  have none: "already_processed w None = False" "already_processed w (Some []) = False"
    by (simp_all add: already_processed_def py_not_def truthy_def)
  have pass: "\<forall>b. fst (tradingview_webhook L C env rd w) \<noteq> Inr (RespStatus b 409)"
    if p: "parse_alert_text (strip rd) = Inr data" and n: "tv_id_of data = None"
  proof (intro allI notI)
    fix b
    assume "fst (tradingview_webhook L C env rd w) = Inr (RespStatus b 409)"
    from webhook_409_only_duplicates [OF this]
    obtain data' where "reaches_dedupe C rd data'" and t: "truthy (tv_id_of data')"
      by blast
    with p have "data' = data" by (simp add: reaches_dedupe_def)
    with t n show False by (simp add: truthy_def)
  qed
  have fallback: "tv_id_of data = Some i"
    if "dict_get data ''tv_id'' = Some []" "dict_get data ''id'' = Some i" "i \<noteq> []"
    using that by (simp add: tv_id_of_def py_or_def truthy_def)
  have nokey: "tv_id_of data = None"
    if "dict_get data ''tv_id'' = None \<or> dict_get data ''tv_id'' = Some []"
       "dict_get data ''id'' = None \<or> dict_get data ''id'' = Some []"
    using that by (auto simp add: tv_id_of_def py_or_def truthy_def)
  from none pass fallback nokey show ?thesis by blast
qed

theorem absent_id_never_duplicate_witness:
  "parse_alert_text (strip alert_blank_ids) =
     Inr [(''secret'', ''changeme''), (''tv_id'', []), (''id'', []), (''symbol'', ''BTC-USD''),
          (''action'', ''buy''), (''amount'', ''10'')] \<and>
   tv_id_of [(''secret'', ''changeme''), (''tv_id'', []), (''id'', []), (''symbol'', ''BTC-USD''),
          (''action'', ''buy''), (''amount'', ''10'')] = None \<and>
   (\<forall>b. fst (tradingview_webhook sample_lib sample_config exchange_created alert_blank_ids store_with_42)
        \<noteq> Inr (RespStatus b 409))"
  using absent_id_never_duplicate [of store_with_42 alert_blank_ids
      "[(''secret'', ''changeme''), (''tv_id'', []), (''id'', []), (''symbol'', ''BTC-USD''),
          (''action'', ''buy''), (''amount'', ''10'')]" sample_lib sample_config exchange_created]
  by (simp add: parse_alert_blank_ids lookup_eval)

section \<open>The rate-limit checkpoint\<close>

text \<open>
  Claim C9. When the \<open>meta\<close> table has no row \<open>last_order_ts\<close>, or the stored value does not
  parse as a float, \<open>get_last_order_ts\<close> returns 0.0 and does not raise. Hence, against a
  store without checkpoint row, no request is answered 429 when the clock reads a time of
  at least \<open>MIN_SECONDS_BETWEEN_ORDERS\<close> (in particular any such positive time). The clock
  reading is a double, so subtracting 0.0 from it is exact.
\<close>

theorem missing_checkpoint_reads_zero:
  "(meta w ''last_order_ts'' = None \<longrightarrow> get_last_order_ts L w = Fin 0) \<and>
   (meta w ''last_order_ts'' = Some v \<longrightarrow> float_of_str L v = None \<longrightarrow> get_last_order_ts L w = Fin 0) \<and>
   (meta w ''last_order_ts'' = None \<longrightarrow>
    round_double L (clock_handler env) = Fin (clock_handler env) \<longrightarrow>
    real_of_int (MIN_SECONDS_BETWEEN_ORDERS C) \<le> clock_handler env \<longrightarrow>
      (\<forall>b. fst (tradingview_webhook L C env rd w) \<noteq> Inr (RespStatus b 429)))"
proof (intro conjI impI allI notI)
  assume "meta w ''last_order_ts'' = None"
  then show "get_last_order_ts L w = Fin 0"
    by (simp add: get_last_order_ts_def)
next
  assume "meta w ''last_order_ts'' = Some v" "float_of_str L v = None"
  then show "get_last_order_ts L w = Fin 0"
    by (simp add: get_last_order_ts_def)
next
  fix b
  assume absent: "meta w ''last_order_ts'' = None"
    and dbl: "round_double L (clock_handler env) = Fin (clock_handler env)"
    and late: "real_of_int (MIN_SECONDS_BETWEEN_ORDERS C) \<le> clock_handler env"
    and limited: "fst (tradingview_webhook L C env rd w) = Inr (RespStatus b 429)"
  from absent have "get_last_order_ts L w = Fin 0"
    by (simp add: get_last_order_ts_def)
  with webhook_429_only_rate_limit [OF limited] dbl
  have "clock_handler env < real_of_int (MIN_SECONDS_BETWEEN_ORDERS C)"
    by simp
  with late show False by simp
qed

theorem missing_checkpoint_reads_zero_witness:
  "meta empty_store ''last_order_ts'' = None \<and>
   get_last_order_ts sample_lib empty_store = Fin 0 \<and>
   round_double sample_lib (clock_handler exchange_created) = Fin (clock_handler exchange_created) \<and>
   0 < clock_handler exchange_created \<and>
   real_of_int (MIN_SECONDS_BETWEEN_ORDERS sample_config) \<le> clock_handler exchange_created \<and>
   (\<forall>b. fst (tradingview_webhook sample_lib sample_config exchange_created alert_buy_100 empty_store)
        \<noteq> Inr (RespStatus b 429))"
  using missing_checkpoint_reads_zero [of empty_store sample_lib _ exchange_created sample_config alert_buy_100]
  by (simp add: empty_store_def sample_lib_def exchange_created_def sample_config_def)

section \<open>The decoder on secrets\<close>





section \<open>The signer\<close>








section \<open>An amount that is not a number\<close>

lemma parse_alert_buy_abc:
  "strip alert_buy_abc = alert_buy_abc"
  "alert_buy_abc \<noteq> []"
  "parse_alert_text alert_buy_abc =
     Inr [(''secret'', ''changeme''), (''symbol'', ''BTC-USD''), (''action'', ''buy''), (''amount'', ''abc'')]"
  by (simp_all add: alert_buy_abc_def parser_eval)

lemma reaches_amount_parse_alert_buy_abc:
  "reaches_amount_parse sample_config empty_store alert_buy_abc
     [(''secret'', ''changeme''), (''symbol'', ''BTC-USD''), (''action'', ''buy''), (''amount'', ''abc'')]"
  by (simp add: reaches_amount_parse_def reaches_dedupe_def parse_alert_buy_abc lookup_eval
      sample_config_def)

text \<open>
  Claim C1 says that a request which passes the empty-body, secret, duplicate-id and
  missing-fields checks, and whose \<open>amount\<close> does not parse as a number, is answered 400
  \<open>{error: "invalid amount"}\<close>. The handler returns \<open>jsonify({"error": "invalid amount"}, 400)\<close>:
  the status is inside the call, so the response is the JSON array
  \<open>[{error: "invalid amount"}, 400]\<close> with status 200. The store is left as it was.
\<close>

theorem unparsable_amount_response:
  assumes "reaches_amount_parse C w rd data"
    and "py_float L (dict_get data ''amount'') = None"
  shows "\<exists>v. tradingview_webhook L C env rd w = (Inr v, w) \<and>
             http_status v = 200 \<and>
             http_body v = JArr [JObj [(''error'', JStr ''invalid amount'')], JInt 400]"
  using webhook_invalid_amount [OF assms, of env]
  by (simp add: error_body_def)

theorem unparsable_amount_response_witness:
  "reaches_amount_parse sample_config empty_store alert_buy_abc
     [(''secret'', ''changeme''), (''symbol'', ''BTC-USD''), (''action'', ''buy''), (''amount'', ''abc'')] \<and>
   py_float sample_lib (dict_get
     [(''secret'', ''changeme''), (''symbol'', ''BTC-USD''), (''action'', ''buy''), (''amount'', ''abc'')]
     ''amount'') = None \<and>
   (\<exists>v. tradingview_webhook sample_lib sample_config exchange_created alert_buy_abc empty_store =
            (Inr v, empty_store) \<and>
        http_status v = 200 \<and>
        http_body v = JArr [JObj [(''error'', JStr ''invalid amount'')], JInt 400])"
proof -
  have pf: "py_float sample_lib (dict_get
     [(''secret'', ''changeme''), (''symbol'', ''BTC-USD''), (''action'', ''buy''), (''amount'', ''abc'')]
     ''amount'') = None"
    by (simp add: lookup_eval sample_float_of_str_eval)
  from unparsable_amount_response [OF reaches_amount_parse_alert_buy_abc pf, of exchange_created]
    reaches_amount_parse_alert_buy_abc pf
  show ?thesis by blast
qed

section \<open>The order gateway\<close>

lemma place_order_sign_fails:
  "b64decode L (COINBASE_API_SECRET C) = None \<Longrightarrow>
   place_market_order_by_funds L C env product_id side usd_amount w = (Inl BinasciiError, w)"
  by (simp add: place_market_order_by_funds_def cb_auth_headers_def Let_def)

lemma place_order_network_fails:
  "b64decode L (COINBASE_API_SECRET C) = Some key \<Longrightarrow>
   \<forall>u h b. http_post env u h b = ConnectionFailed \<Longrightarrow>
   \<exists>u h b. place_market_order_by_funds L C env product_id side usd_amount w =
     (Inl RequestException, w\<lparr>trace := trace w @ [HttpPost u h b]\<rparr>)"
  by (simp add: place_market_order_by_funds_def cb_auth_headers_def Let_def) blast

lemma place_order_responds:
  "b64decode L (COINBASE_API_SECRET C) = Some key \<Longrightarrow>
   \<forall>u h b. http_post env u h b \<noteq> ConnectionFailed \<Longrightarrow>
   \<exists>code resp u h b. place_market_order_by_funds L C env product_id side usd_amount w =
     (Inr (code, resp), w\<lparr>trace := trace w @ [HttpPost u h b]\<rparr>)"
  by (auto simp add: place_market_order_by_funds_def cb_auth_headers_def Let_def
      split: http_outcome.splits option.splits)

lemma place_order_keeps_tables:
  "alerts (snd (place_market_order_by_funds L C env product_id side usd_amount w)) = alerts w \<and>
   meta (snd (place_market_order_by_funds L C env product_id side usd_amount w)) = meta w"
  by (simp add: place_market_order_by_funds_def cb_auth_headers_def Let_def
      split: http_outcome.splits option.splits sum.splits)

text \<open>
  Claim C2 says that \<open>place_market_order_by_funds\<close> never raises, whatever the transport
  does. In the code \<open>requests.post\<close> is called outside the \<open>try\<close>: when the secret decodes and
  the transport fails at the network level the exception leaves the function. When the
  transport delivers a response the function returns the status code with the decoded
  JSON, or with the raw text when the body is not JSON.
\<close>

theorem place_order_outcomes:
  assumes "b64decode L (COINBASE_API_SECRET C) = Some key"
  shows "((\<forall>u h b. http_post env u h b = ConnectionFailed) \<longrightarrow>
            fst (place_market_order_by_funds L C env product_id side usd_amount w) = Inl RequestException) \<and>
         ((\<forall>u h b. http_post env u h b = HttpResponse code (Some j) txt) \<longrightarrow>
            fst (place_market_order_by_funds L C env product_id side usd_amount w) = Inr (code, j)) \<and>
         ((\<forall>u h b. http_post env u h b = HttpResponse code None txt) \<longrightarrow>
            fst (place_market_order_by_funds L C env product_id side usd_amount w) = Inr (code, JStr txt))"
  using assms
  by (simp add: place_market_order_by_funds_def cb_auth_headers_def Let_def)

theorem place_order_outcomes_witness:
  "b64decode sample_lib (COINBASE_API_SECRET sample_config) = Some ''secret'' \<and>
   (\<forall>u h b. http_post exchange_unreachable u h b = ConnectionFailed) \<and>
   fst (place_market_order_by_funds sample_lib sample_config exchange_unreachable
          (Some ''BTC-USD'') ''buy'' (Fin 10) empty_store) = Inl RequestException"
proof -
  have dec: "b64decode sample_lib (COINBASE_API_SECRET sample_config) = Some ''secret''"
    by (simp add: sample_lib_def sample_config_def)
  have down: "\<forall>u h b. http_post exchange_unreachable u h b = ConnectionFailed"
    by (simp add: exchange_unreachable_def)
  from place_order_outcomes [OF dec, of exchange_unreachable] down dec
  show ?thesis by blast
qed

section \<open>Placement, record and response\<close>

lemma count_simps:
  "count_inserts (w\<lparr>trace := tr\<rparr>) = length (filter is_insert tr)"
  "count_checkpoint_writes (w\<lparr>trace := tr\<rparr>) = length (filter is_checkpoint_write tr)"
  "count_exchange_calls (w\<lparr>trace := tr\<rparr>) = length (filter is_exchange_call tr)"
  by (simp_all add: count_inserts_def count_checkpoint_writes_def count_exchange_calls_def)

lemma reaches_placement_action:
  assumes "reaches_placement L C env w rd data x"
  obtains a where "dict_get data ''action'' = Some a"
proof -
  from assms have "truthy (dict_get data ''action'')"
    by (simp add: reaches_placement_def reaches_rate_limit_def reaches_bounds_check_def
        reaches_amount_parse_def)
  then show thesis
    using truthy_SomeD that by blast
qed

lemma webhook_processed:
  assumes rp: "reaches_placement L C env w rd data x"
    and dec: "b64decode L (COINBASE_API_SECRET C) = Some key"
    and up: "\<forall>u h b. http_post env u h b \<noteq> ConnectionFailed"
  obtains code resp u h b where
    "tradingview_webhook L C env rd w =
       (Inr (RespStatus (outcome_body (if code \<in> {200, 201} then ''ok'' else ''error'') code resp)
                        (if code \<in> {200, 201} then 200 else 500)),
        set_last_order_ts L (Fin (clock_handler env))
          (snd (insert_alert L (tv_id_of data) (strip rd) (dict_get data ''symbol'')
                  (dict_get data ''action'') x
                  (if code \<in> {200, 201} then ''placed'' else ''attempted'') resp
                  (w\<lparr>trace := trace w @ [HttpPost u h b]\<rparr>))))"
proof -
  from rp obtain a where a: "dict_get data ''action'' = Some a"
    by (rule reaches_placement_action)
  from place_order_responds [OF dec up]
  obtain code resp u h b where
    "place_market_order_by_funds L C env (dict_get data ''symbol'') (order_side a) x w =
       (Inr (code, resp), w\<lparr>trace := trace w @ [HttpPost u h b]\<rparr>)"
    by blast
  with webhook_placement [OF rp a] a
  have "tradingview_webhook L C env rd w =
       (Inr (RespStatus (outcome_body (if code \<in> {200, 201} then ''ok'' else ''error'') code resp)
                        (if code \<in> {200, 201} then 200 else 500)),
        set_last_order_ts L (Fin (clock_handler env))
          (snd (insert_alert L (tv_id_of data) (strip rd) (dict_get data ''symbol'')
                  (dict_get data ''action'') x
                  (if code \<in> {200, 201} then ''placed'' else ''attempted'') resp
                  (w\<lparr>trace := trace w @ [HttpPost u h b]\<rparr>))))"
    by simp
  then show thesis by (rule that)
qed

lemma webhook_processed_effects:
  assumes rp: "reaches_placement L C env w rd data x"
    and dec: "b64decode L (COINBASE_API_SECRET C) = Some key"
    and up: "\<forall>u h b. http_post env u h b \<noteq> ConnectionFailed"
  obtains row u h b v where
    "trace (snd (tradingview_webhook L C env rd w)) =
       trace w @ [HttpPost u h b, DbInsertAlert row, DbSetMeta ''last_order_ts'' v]"
    "alerts (snd (tradingview_webhook L C env rd w)) = alerts w @ [row]"
    "row_tv_id row = tv_id_of data"
proof -
  from rp dec up obtain code resp u h b where eq:
    "tradingview_webhook L C env rd w =
       (Inr (RespStatus (outcome_body (if code \<in> {200, 201} then ''ok'' else ''error'') code resp)
                        (if code \<in> {200, 201} then 200 else 500)),
        set_last_order_ts L (Fin (clock_handler env))
          (snd (insert_alert L (tv_id_of data) (strip rd) (dict_get data ''symbol'')
                  (dict_get data ''action'') x
                  (if code \<in> {200, 201} then ''placed'' else ''attempted'') resp
                  (w\<lparr>trace := trace w @ [HttpPost u h b]\<rparr>))))"
    by (rule webhook_processed)
  let ?row = "\<lparr>row_id = next_row_id (alerts w), row_tv_id = tv_id_of data, row_raw = strip rd,
               row_symbol = dict_get data ''symbol'', row_action = dict_get data ''action'',
               row_amount = x,
               row_status = (if code \<in> {200, 201} then ''placed'' else ''attempted''),
               row_response = json_dumps L resp\<rparr>"
  have "trace (snd (tradingview_webhook L C env rd w)) =
       trace w @ [HttpPost u h b, DbInsertAlert ?row,
                  DbSetMeta ''last_order_ts'' (str_of_float L (Fin (clock_handler env)))]"
    unfolding eq by (simp add: set_last_order_ts_def insert_alert_def Let_def)
  moreover have "alerts (snd (tradingview_webhook L C env rd w)) = alerts w @ [?row]"
    unfolding eq by (simp add: set_last_order_ts_def insert_alert_def Let_def)
  moreover have "row_tv_id ?row = tv_id_of data"
    by simp
  ultimately show thesis by (rule that)
qed

lemma parse_alert_sell_50:
  "strip alert_sell_50 = alert_sell_50"
  "alert_sell_50 \<noteq> []"
  "parse_alert_text alert_sell_50 =
     Inr [(''secret'', ''changeme''), (''symbol'', ''BTC-USD''), (''action'', ''sell''), (''amount'', ''50'')]"
  by (simp_all add: alert_sell_50_def parser_eval)

lemma sample_clock_passes_rate_limit:
  "\<not> float_lt (float_sub (round_double sample_lib) (Fin 1700000000) (get_last_order_ts sample_lib empty_store))
              (Fin 1)"
  by (simp add: get_last_order_ts_def empty_store_def sample_lib_def)

lemma sample_config_fields:
  "ALERT_SECRET sample_config = ''changeme''"
  "MAX_USD_PER_ORDER sample_config = Fin 100"
  "MIN_SECONDS_BETWEEN_ORDERS sample_config = 1"
  "COINBASE_API_SECRET sample_config = ''c2VjcmV0''"
  "ALERT_SECRET bad_secret_config = ''changeme''"
  "MAX_USD_PER_ORDER bad_secret_config = Fin 100"
  "MIN_SECONDS_BETWEEN_ORDERS bad_secret_config = 1"
  "COINBASE_API_SECRET bad_secret_config = ''abc''"
  by (simp_all add: sample_config_def bad_secret_config_def)

lemma sample_decode:
  "b64decode sample_lib ''c2VjcmV0'' = Some ''secret''"
  "b64decode sample_lib ''abc'' = None"
  by (simp_all add: sample_lib_def)

lemma exchange_clocks:
  "clock_handler exchange_created = 1700000000"
  "clock_handler exchange_bad_gateway = 1700000000"
  "clock_handler exchange_unreachable = 1700000000"
  by (simp_all add: exchange_created_def exchange_bad_gateway_def exchange_unreachable_def)

lemma empty_store_fields:
  "alerts empty_store = []" "trace empty_store = []" "meta empty_store = Map.empty"
  by (simp_all add: empty_store_def)

lemma already_processed_empty: "\<not> already_processed empty_store t"
  by (simp add: already_processed_def empty_store_def)

lemmas reaches_defs =
  reaches_placement_def reaches_rate_limit_def reaches_bounds_check_def reaches_amount_parse_def
  reaches_dedupe_def

lemma reaches_placement_alert_sell_50:
  "reaches_placement sample_lib sample_config exchange_created empty_store alert_sell_50
     [(''secret'', ''changeme''), (''symbol'', ''BTC-USD''), (''action'', ''sell''), (''amount'', ''50'')]
     (Fin 50)"
  "reaches_placement sample_lib bad_secret_config exchange_bad_gateway empty_store alert_sell_50
     [(''secret'', ''changeme''), (''symbol'', ''BTC-USD''), (''action'', ''sell''), (''amount'', ''50'')]
     (Fin 50)"
  by (simp_all add: reaches_defs parse_alert_sell_50 lookup_eval sample_float_of_str_eval
      sample_config_fields exchange_clocks sample_clock_passes_rate_limit already_processed_empty
      float_gt_def)

lemma order_side_eval: "order_side ''sell'' = ''sell''" "order_side ''buy'' = ''buy''"
  by (simp_all add: order_side_def startswith_def lower_def lower_chr_def)

text \<open>
  In the handler a network-level failure therefore surfaces as an uncaught exception: the
  exchange has been called, but no record is inserted and the checkpoint is not moved.
\<close>

lemma webhook_network_failure:
  assumes rp: "reaches_placement L C env w rd data x"
    and dec: "b64decode L (COINBASE_API_SECRET C) = Some key"
    and down: "\<forall>u h b. http_post env u h b = ConnectionFailed"
  shows "fst (tradingview_webhook L C env rd w) = Inl RequestException \<and>
         alerts (snd (tradingview_webhook L C env rd w)) = alerts w \<and>
         meta (snd (tradingview_webhook L C env rd w)) = meta w \<and>
         count_exchange_calls (snd (tradingview_webhook L C env rd w)) = count_exchange_calls w + 1"
proof -
  from rp obtain a where a: "dict_get data ''action'' = Some a"
    by (rule reaches_placement_action)
  from place_order_network_fails [OF dec down]
  obtain u h b where
    "place_market_order_by_funds L C env (dict_get data ''symbol'') (order_side a) x w =
       (Inl RequestException, w\<lparr>trace := trace w @ [HttpPost u h b]\<rparr>)"
    by blast
  then show ?thesis
    unfolding webhook_placement [OF rp a]
    by (simp add: count_exchange_calls_def)
qed

section \<open>Record and response after the gateway returned\<close>

text \<open>
  Claim C5, as amended. For every alert that reaches order placement and for which the
  gateway returns a status code \<open>code\<close> with a body \<open>resp\<close>: one \<open>AlertRecord\<close> is appended,
  with status \<open>placed\<close> if \<open>code\<close> is 200 or 201 and \<open>attempted\<close> otherwise, and the HTTP
  response is 200 \<open>{status: "ok", code, response}\<close> if \<open>code\<close> is 200 or 201 and 500
  \<open>{status: "error", code, response}\<close> otherwise.
\<close>

theorem record_and_response_follow_gateway:
  assumes rp: "reaches_placement L C env w rd data x"
    and a: "dict_get data ''action'' = Some a"
    and gw: "fst (place_market_order_by_funds L C env (dict_get data ''symbol'') (order_side a) x w) =
               Inr (code, resp)"
  shows "fst (tradingview_webhook L C env rd w) =
           Inr (RespStatus (outcome_body (if code \<in> {200, 201} then ''ok'' else ''error'') code resp)
                           (if code \<in> {200, 201} then 200 else 500)) \<and>
         alerts (snd (tradingview_webhook L C env rd w)) =
           alerts w @
           [\<lparr>row_id = next_row_id (alerts w), row_tv_id = tv_id_of data, row_raw = strip rd,
             row_symbol = dict_get data ''symbol'', row_action = Some a, row_amount = x,
             row_status = (if code \<in> {200, 201} then ''placed'' else ''attempted''),
             row_response = json_dumps L resp\<rparr>]"
proof -
  obtain w1 where pl:
    "place_market_order_by_funds L C env (dict_get data ''symbol'') (order_side a) x w =
       (Inr (code, resp), w1)"
    using gw by (cases "place_market_order_by_funds L C env (dict_get data ''symbol'') (order_side a) x w")
      simp
  from place_order_keeps_tables [of L C env "dict_get data ''symbol''" "order_side a" x w] pl
  have tables: "alerts w1 = alerts w"
    by simp
  show ?thesis
    unfolding webhook_placement [OF rp a] pl
    by (simp add: a tables set_last_order_ts_def insert_alert_def Let_def)
qed

text \<open>
  The end-to-end example of the specification: the alert
  \<open>secret: changeme; symbol: BTC-USD; action: sell; amount: 50\<close> against an exchange that
  answers 201 \<open>{id: "X"}\<close> yields 200 \<open>{status: "ok", code: 201, response: {id: "X"}}\<close> and one
  record with status \<open>placed\<close>.
\<close>

theorem record_and_response_follow_gateway_witness:
  "reaches_placement sample_lib sample_config exchange_created empty_store alert_sell_50
     [(''secret'', ''changeme''), (''symbol'', ''BTC-USD''), (''action'', ''sell''), (''amount'', ''50'')]
     (Fin 50) \<and>
   fst (place_market_order_by_funds sample_lib sample_config exchange_created (Some ''BTC-USD'')
          ''sell'' (Fin 50) empty_store) = Inr (201, JObj [(''id'', JStr ''X'')]) \<and>
   fst (tradingview_webhook sample_lib sample_config exchange_created alert_sell_50 empty_store) =
     Inr (RespStatus (JObj [(''status'', JStr ''ok''), (''code'', JInt 201),
                            (''response'', JObj [(''id'', JStr ''X'')])]) 200) \<and>
   alerts (snd (tradingview_webhook sample_lib sample_config exchange_created alert_sell_50 empty_store)) =
     [\<lparr>row_id = 1, row_tv_id = None, row_raw = alert_sell_50, row_symbol = Some ''BTC-USD'',
       row_action = Some ''sell'', row_amount = Fin 50, row_status = ''placed'',
       row_response = ''json''\<rparr>]"
proof -
  have gw: "fst (place_market_order_by_funds sample_lib sample_config exchange_created (Some ''BTC-USD'')
          ''sell'' (Fin 50) empty_store) = Inr (201, JObj [(''id'', JStr ''X'')])"
    by (simp add: place_market_order_by_funds_def cb_auth_headers_def Let_def sample_config_fields
        sample_decode exchange_created_def)
  from record_and_response_follow_gateway [OF reaches_placement_alert_sell_50(1), of "''sell''"
      201 "JObj [(''id'', JStr ''X'')]"] gw reaches_placement_alert_sell_50(1)
  show ?thesis
    by (simp add: lookup_eval order_side_eval outcome_body_def parse_alert_sell_50 empty_store_fields
        next_row_id_def sample_lib_def)
qed

text \<open>
  The claim as first stated, a record for every alert that reaches order placement, fails
  when the configured secret is not valid base64: the signer raises, nothing is recorded
  and no JSON response is produced.
\<close>

theorem no_record_when_signing_fails:
  "reaches_placement sample_lib bad_secret_config exchange_bad_gateway empty_store alert_sell_50
     [(''secret'', ''changeme''), (''symbol'', ''BTC-USD''), (''action'', ''sell''), (''amount'', ''50'')]
     (Fin 50) \<and>
   fst (tradingview_webhook sample_lib bad_secret_config exchange_bad_gateway alert_sell_50 empty_store) =
     Inl BinasciiError \<and>
   alerts (snd (tradingview_webhook sample_lib bad_secret_config exchange_bad_gateway alert_sell_50
                  empty_store)) = []"
proof -
  have a: "dict_get [(''secret'', ''changeme''), (''symbol'', ''BTC-USD''), (''action'', ''sell''),
                     (''amount'', ''50'')] ''action'' = Some ''sell''"
    by (simp add: dict_get_def)
  show ?thesis
    unfolding webhook_placement [OF reaches_placement_alert_sell_50(2) a]
    using reaches_placement_alert_sell_50(2)
    by (simp add: place_order_sign_fails sample_config_fields sample_decode empty_store_fields)
qed

section \<open>Writes to the store per request\<close>

lemma parse_alert_42:
  "strip alert_42 = alert_42"
  "alert_42 \<noteq> []"
  "parse_alert_text alert_42 =
     Inr [(''secret'', ''changeme''), (''tv_id'', ''42''), (''symbol'', ''BTC-USD''), (''action'', ''buy''),
          (''amount'', ''10'')]"
  by (simp_all add: alert_42_def parser_eval)

lemma reaches_placement_alert_buy_100:
  "reaches_placement sample_lib sample_config exchange_bad_gateway empty_store alert_buy_100
     [(''secret'', ''changeme''), (''symbol'', ''BTC-USD''), (''action'', ''buy''), (''amount'', ''100'')]
     (Fin 100)"
  "reaches_placement sample_lib bad_secret_config exchange_created empty_store alert_buy_100
     [(''secret'', ''changeme''), (''symbol'', ''BTC-USD''), (''action'', ''buy''), (''amount'', ''100'')]
     (Fin 100)"
  by (simp_all add: reaches_defs parse_alert_buy_100 lookup_eval sample_float_of_str_eval
      sample_config_fields exchange_clocks sample_clock_passes_rate_limit already_processed_empty
      float_gt_def)

lemma alert_buy_0_rejected:
  "\<forall>data x. \<not> reaches_placement sample_lib sample_config exchange_created empty_store alert_buy_0 data x"
  by (auto simp add: reaches_defs parse_alert_buy_0 lookup_eval sample_float_of_str_eval)

lemma exchanges_respond:
  "\<forall>u h b. http_post exchange_created u h b \<noteq> ConnectionFailed"
  "\<forall>u h b. http_post exchange_bad_gateway u h b \<noteq> ConnectionFailed"
  by (simp_all add: exchange_created_def exchange_bad_gateway_def)

lemma webhook_rejection_response:
  assumes "\<forall>data x. \<not> reaches_placement L C env w rd data x"
  shows "\<exists>v msg rest. fst (tradingview_webhook L C env rd w) = Inr v \<and>
      (http_body v = error_body msg rest \<or> http_body v = JArr [error_body msg rest, JInt 400])"
proof -
  obtain d where "parse_alert_text (strip rd) = Inr d"
    using parse_alert_text_total by blast
  with assms show ?thesis
    by (auto simp add: tradingview_webhook_def reaches_defs tv_id_of_def py_not_def Let_def
        jsonify_def error_body_def
        split: if_splits sum.splits option.splits prod.splits)
qed

text \<open>
  Claim C4, as amended. A request that is rejected before order placement (empty body, bad
  secret, duplicate id, missing fields, unparsable amount, out-of-bounds amount, rate
  limit) gets an error response and leaves the store as it was: no insert into \<open>alerts\<close>,
  no checkpoint write. A request that reaches order placement, with a secret that decodes
  and an exchange call that returns a response, causes exactly one insert, exactly one
  checkpoint write and one exchange call, whatever the status code of the response.
\<close>

theorem store_writes_per_request:
  "((\<forall>data x. \<not> reaches_placement L C env w rd data x) \<longrightarrow>
      (\<exists>v msg rest. fst (tradingview_webhook L C env rd w) = Inr v \<and>
         (http_body v = error_body msg rest \<or> http_body v = JArr [error_body msg rest, JInt 400])) \<and>
      snd (tradingview_webhook L C env rd w) = w \<and>
      count_inserts (snd (tradingview_webhook L C env rd w)) = count_inserts w \<and>
      count_checkpoint_writes (snd (tradingview_webhook L C env rd w)) = count_checkpoint_writes w) \<and>
   (reaches_placement L C env w rd data x \<longrightarrow>
    b64decode L (COINBASE_API_SECRET C) = Some key \<longrightarrow>
    (\<forall>u h b. http_post env u h b \<noteq> ConnectionFailed) \<longrightarrow>
      count_inserts (snd (tradingview_webhook L C env rd w)) = count_inserts w + 1 \<and>
      count_checkpoint_writes (snd (tradingview_webhook L C env rd w)) = count_checkpoint_writes w + 1 \<and>
      count_exchange_calls (snd (tradingview_webhook L C env rd w)) = count_exchange_calls w + 1 \<and>
      length (alerts (snd (tradingview_webhook L C env rd w))) = length (alerts w) + 1)"
proof (intro conjI impI)
  assume rej: "\<forall>data x. \<not> reaches_placement L C env w rd data x"
  from webhook_rejection_response [OF rej]
  show "\<exists>v msg rest. fst (tradingview_webhook L C env rd w) = Inr v \<and>
         (http_body v = error_body msg rest \<or> http_body v = JArr [error_body msg rest, JInt 400])" .
  from webhook_unchanged_unless_placement [OF rej]
  show "snd (tradingview_webhook L C env rd w) = w"
    and "count_inserts (snd (tradingview_webhook L C env rd w)) = count_inserts w"
    and "count_checkpoint_writes (snd (tradingview_webhook L C env rd w)) = count_checkpoint_writes w"
    by simp_all
next
  assume rp: "reaches_placement L C env w rd data x"
    and dec: "b64decode L (COINBASE_API_SECRET C) = Some key"
    and up: "\<forall>u h b. http_post env u h b \<noteq> ConnectionFailed"
  from rp dec up obtain row u h b v where
    tr: "trace (snd (tradingview_webhook L C env rd w)) =
       trace w @ [HttpPost u h b, DbInsertAlert row, DbSetMeta ''last_order_ts'' v]"
    and al: "alerts (snd (tradingview_webhook L C env rd w)) = alerts w @ [row]"
    by (rule webhook_processed_effects)
  from tr show "count_inserts (snd (tradingview_webhook L C env rd w)) = count_inserts w + 1"
    by (simp add: count_inserts_def)
  from tr show "count_checkpoint_writes (snd (tradingview_webhook L C env rd w)) =
      count_checkpoint_writes w + 1"
    by (simp add: count_checkpoint_writes_def)
  from tr show "count_exchange_calls (snd (tradingview_webhook L C env rd w)) = count_exchange_calls w + 1"
    by (simp add: count_exchange_calls_def)
  from al show "length (alerts (snd (tradingview_webhook L C env rd w))) = length (alerts w) + 1"
    by simp
qed

text \<open>
  An alert with amount 0 is rejected and leaves the empty store empty; an alert with
  amount 100, answered 502 by the exchange, is recorded once and moves the checkpoint once.
\<close>

theorem store_writes_per_request_witness:
  "(\<forall>data x. \<not> reaches_placement sample_lib sample_config exchange_created empty_store alert_buy_0 data x) \<and>
   snd (tradingview_webhook sample_lib sample_config exchange_created alert_buy_0 empty_store) = empty_store \<and>
   reaches_placement sample_lib sample_config exchange_bad_gateway empty_store alert_buy_100
     [(''secret'', ''changeme''), (''symbol'', ''BTC-USD''), (''action'', ''buy''), (''amount'', ''100'')]
     (Fin 100) \<and>
   b64decode sample_lib (COINBASE_API_SECRET sample_config) = Some ''secret'' \<and>
   (\<forall>u h b. http_post exchange_bad_gateway u h b \<noteq> ConnectionFailed) \<and>
   count_inserts (snd (tradingview_webhook sample_lib sample_config exchange_bad_gateway alert_buy_100
                         empty_store)) = 1 \<and>
   count_checkpoint_writes (snd (tradingview_webhook sample_lib sample_config exchange_bad_gateway
                                   alert_buy_100 empty_store)) = 1 \<and>
   length (alerts (snd (tradingview_webhook sample_lib sample_config exchange_bad_gateway alert_buy_100
                          empty_store))) = 1"
proof -
  have dec: "b64decode sample_lib (COINBASE_API_SECRET sample_config) = Some ''secret''"
    by (simp add: sample_config_fields sample_decode)
  have zero: "count_inserts empty_store = 0" "count_checkpoint_writes empty_store = 0"
    "length (alerts empty_store) = 0"
    by (simp_all add: count_inserts_def count_checkpoint_writes_def empty_store_def)
  from store_writes_per_request [of sample_lib sample_config exchange_created empty_store alert_buy_0]
    alert_buy_0_rejected
  have rejected:
    "snd (tradingview_webhook sample_lib sample_config exchange_created alert_buy_0 empty_store) = empty_store"
    by blast
  from store_writes_per_request [of sample_lib sample_config exchange_bad_gateway empty_store
      alert_buy_100 _ _ "''secret''"]
    reaches_placement_alert_buy_100(1) dec exchanges_respond(2)
  have placed:
    "count_inserts (snd (tradingview_webhook sample_lib sample_config exchange_bad_gateway alert_buy_100
                         empty_store)) = count_inserts empty_store + 1 \<and>
     count_checkpoint_writes (snd (tradingview_webhook sample_lib sample_config exchange_bad_gateway
                                   alert_buy_100 empty_store)) = count_checkpoint_writes empty_store + 1 \<and>
     length (alerts (snd (tradingview_webhook sample_lib sample_config exchange_bad_gateway alert_buy_100
                          empty_store))) = length (alerts empty_store) + 1"
    by blast
  from rejected placed zero alert_buy_0_rejected reaches_placement_alert_buy_100(1) dec exchanges_respond(2)
  show ?thesis by simp
qed

text \<open>
  The claim as first stated, one insert and one checkpoint write for every request that
  reaches order placement, fails when the configured secret is not valid base64: the
  signer raises before the exchange is called and the store is left as it was.
\<close>

theorem no_writes_when_signing_fails:
  "reaches_placement sample_lib bad_secret_config exchange_created empty_store alert_buy_100
     [(''secret'', ''changeme''), (''symbol'', ''BTC-USD''), (''action'', ''buy''), (''amount'', ''100'')]
     (Fin 100) \<and>
   tradingview_webhook sample_lib bad_secret_config exchange_created alert_buy_100 empty_store =
     (Inl BinasciiError, empty_store) \<and>
   count_inserts (snd (tradingview_webhook sample_lib bad_secret_config exchange_created alert_buy_100
                         empty_store)) = 0 \<and>
   count_checkpoint_writes (snd (tradingview_webhook sample_lib bad_secret_config exchange_created
                                   alert_buy_100 empty_store)) = 0"
proof -
  have a: "dict_get [(''secret'', ''changeme''), (''symbol'', ''BTC-USD''), (''action'', ''buy''),
                     (''amount'', ''100'')] ''action'' = Some ''buy''"
    by (simp add: dict_get_def)
  have "tradingview_webhook sample_lib bad_secret_config exchange_created alert_buy_100 empty_store =
     (Inl BinasciiError, empty_store)"
    unfolding webhook_placement [OF reaches_placement_alert_buy_100(2) a]
    by (simp add: place_order_sign_fails sample_config_fields sample_decode)
  with reaches_placement_alert_buy_100(2) show ?thesis
    by (simp add: count_inserts_def count_checkpoint_writes_def empty_store_def)
qed

section \<open>Duplicate ids\<close>

lemma carries_id_resolves: "carries_id data t \<Longrightarrow> tv_id_of data = Some t \<and> truthy (Some t)"
  by (auto simp add: carries_id_def tv_id_of_def py_or_def truthy_def)

lemma already_processed_iff:
  "t \<noteq> [] \<Longrightarrow> already_processed w (Some t) \<longleftrightarrow> Some t \<in> set (map row_tv_id (alerts w))"
  by (force simp add: already_processed_def py_not_def truthy_def filter_empty_conv)

lemma parse_alert_42_by_id:
  "strip alert_42_by_id = alert_42_by_id"
  "alert_42_by_id \<noteq> []"
  "parse_alert_text alert_42_by_id =
     Inr [(''secret'', ''changeme''), (''id'', ''42''), (''symbol'', ''BTC-USD''), (''action'', ''buy''),
          (''amount'', ''10'')]"
  by (simp_all add: alert_42_by_id_def parser_eval)

lemma parse_alert_42_wrong_secret:
  "strip alert_42_wrong_secret = alert_42_wrong_secret"
  "alert_42_wrong_secret \<noteq> []"
  "parse_alert_text alert_42_wrong_secret =
     Inr [(''secret'', ''guess''), (''tv_id'', ''42''), (''symbol'', ''BTC-USD''), (''action'', ''buy''),
          (''amount'', ''10'')]"
  by (simp_all add: alert_42_wrong_secret_def parser_eval)

lemma parse_alert_42_amount_0:
  "strip alert_42_amount_0 = alert_42_amount_0"
  "alert_42_amount_0 \<noteq> []"
  "parse_alert_text alert_42_amount_0 =
     Inr [(''secret'', ''changeme''), (''tv_id'', ''42''), (''symbol'', ''BTC-USD''), (''action'', ''buy''),
          (''amount'', ''0'')]"
  by (simp_all add: alert_42_amount_0_def parser_eval)

lemma reaches_placement_alert_42:
  "reaches_placement sample_lib sample_config exchange_created empty_store alert_42
     [(''secret'', ''changeme''), (''tv_id'', ''42''), (''symbol'', ''BTC-USD''), (''action'', ''buy''),
      (''amount'', ''10'')]
     (Fin 10)"
  by (simp add: reaches_defs parse_alert_42 lookup_eval sample_float_of_str_eval
      sample_config_fields exchange_clocks sample_clock_passes_rate_limit already_processed_empty
      float_gt_def)

lemma reaches_dedupe_samples:
  "reaches_dedupe sample_config alert_42
     [(''secret'', ''changeme''), (''tv_id'', ''42''), (''symbol'', ''BTC-USD''), (''action'', ''buy''),
      (''amount'', ''10'')]"
  "reaches_dedupe sample_config alert_42_by_id
     [(''secret'', ''changeme''), (''id'', ''42''), (''symbol'', ''BTC-USD''), (''action'', ''buy''),
      (''amount'', ''10'')]"
  by (simp_all add: reaches_dedupe_def parse_alert_42 parse_alert_42_by_id lookup_eval sample_config_fields)

lemma carries_id_samples:
  "carries_id [(''secret'', ''changeme''), (''tv_id'', ''42''), (''symbol'', ''BTC-USD''), (''action'', ''buy''),
      (''amount'', ''10'')] ''42''"
  "carries_id [(''secret'', ''changeme''), (''id'', ''42''), (''symbol'', ''BTC-USD''), (''action'', ''buy''),
      (''amount'', ''10'')] ''42''"
  "carries_id [(''secret'', ''guess''), (''tv_id'', ''42''), (''symbol'', ''BTC-USD''), (''action'', ''buy''),
      (''amount'', ''10'')] ''42''"
  by (simp_all add: carries_id_def dict_get_def)

lemma store_with_42_has_42: "Some ''42'' \<in> set (map row_tv_id (alerts store_with_42))"
  by (simp add: store_with_42_def row_42_def)

text \<open>
  Claim C3, as amended. Let \<open>t\<close> be a non-empty id. If the store holds a record with
  \<open>tv_id = t\<close>, a request that passes the empty-body and secret checks and carries \<open>t\<close> (in
  \<open>tv_id\<close>, or in \<open>id\<close> when there is no \<open>tv_id\<close>) is answered 409
  \<open>{error: "duplicate alert", tv_id: t}\<close> and leaves the store as it was: no insert, no
  exchange call. Hence, when a first delivery carrying \<open>t\<close> reaches order placement, is
  signed and gets a response from the exchange, a second delivery carrying \<open>t\<close> is answered
  409, and after both the store holds exactly one record with \<open>tv_id = t\<close> and exactly one
  exchange call has been made.
\<close>

theorem duplicate_id_rejected:
  "(reaches_dedupe C rd data \<longrightarrow> carries_id data t \<longrightarrow>
    Some t \<in> set (map row_tv_id (alerts w)) \<longrightarrow>
      tradingview_webhook L C env rd w =
        (Inr (RespStatus (error_body ''duplicate alert'' [(''tv_id'', JStr t)]) 409), w)) \<and>
   (reaches_placement L C envA w rdA dataA x \<longrightarrow> carries_id dataA t \<longrightarrow>
    b64decode L (COINBASE_API_SECRET C) = Some key \<longrightarrow>
    (\<forall>u h b. http_post envA u h b \<noteq> ConnectionFailed) \<longrightarrow>
    reaches_dedupe C rdB dataB \<longrightarrow> carries_id dataB t \<longrightarrow>
      (let w1 = snd (tradingview_webhook L C envA rdA w);
           second = tradingview_webhook L C envB rdB w1
       in fst second = Inr (RespStatus (error_body ''duplicate alert'' [(''tv_id'', JStr t)]) 409) \<and>
          snd second = w1 \<and>
          length (filter (\<lambda>r. row_tv_id r = Some t) (alerts (snd second))) = 1 \<and>
          count_inserts (snd second) = count_inserts w + 1 \<and>
          count_exchange_calls (snd second) = count_exchange_calls w + 1))"
proof (intro conjI impI)
  assume rd: "reaches_dedupe C rd data" and c: "carries_id data t"
    and held: "Some t \<in> set (map row_tv_id (alerts w))"
  from c have t: "tv_id_of data = Some t" "truthy (Some t)" "t \<noteq> []"
    using carries_id_resolves by (auto simp add: carries_id_def)
  from held t(3) have "already_processed w (Some t)"
    by (simp add: already_processed_iff)
  with webhook_duplicate [OF rd, of w L env] t
  show "tradingview_webhook L C env rd w =
        (Inr (RespStatus (error_body ''duplicate alert'' [(''tv_id'', JStr t)]) 409), w)"
    by (simp add: json_of_optstr_def)
next
  assume rp: "reaches_placement L C envA w rdA dataA x" and cA: "carries_id dataA t"
    and dec: "b64decode L (COINBASE_API_SECRET C) = Some key"
    and up: "\<forall>u h b. http_post envA u h b \<noteq> ConnectionFailed"
    and rdB: "reaches_dedupe C rdB dataB" and cB: "carries_id dataB t"
  define w1 where "w1 = snd (tradingview_webhook L C envA rdA w)"
  from cA have tA: "tv_id_of dataA = Some t" "truthy (Some t)" "t \<noteq> []"
    using carries_id_resolves by (auto simp add: carries_id_def)
  from cB have tB: "tv_id_of dataB = Some t"
    using carries_id_resolves by blast
  from rp dec up obtain row u h b v where
    tr: "trace w1 = trace w @ [HttpPost u h b, DbInsertAlert row, DbSetMeta ''last_order_ts'' v]"
    and al: "alerts w1 = alerts w @ [row]"
    and row: "row_tv_id row = tv_id_of dataA"
    unfolding w1_def by (rule webhook_processed_effects)
  from rp tA have fresh: "\<not> already_processed w (Some t)"
    by (simp add: reaches_defs)
  then have none: "filter (\<lambda>r. row_tv_id r = Some t) (alerts w) = []"
    using tA(3) by (simp add: already_processed_def py_not_def truthy_def)
  from al row tA have "already_processed w1 (Some t)"
    by (simp add: already_processed_iff)
  with webhook_duplicate [OF rdB, of w1 L envB] tA tB
  have second: "tradingview_webhook L C envB rdB w1 =
        (Inr (RespStatus (error_body ''duplicate alert'' [(''tv_id'', JStr t)]) 409), w1)"
    by (simp add: json_of_optstr_def)
  have one: "length (filter (\<lambda>r. row_tv_id r = Some t) (alerts w1)) = 1"
    using al row tA none by simp
  have ins: "count_inserts w1 = count_inserts w + 1"
    using tr by (simp add: count_inserts_def)
  have calls: "count_exchange_calls w1 = count_exchange_calls w + 1"
    using tr by (simp add: count_exchange_calls_def)
  from second one ins calls
  show "let w1 = snd (tradingview_webhook L C envA rdA w);
            second = tradingview_webhook L C envB rdB w1
        in fst second = Inr (RespStatus (error_body ''duplicate alert'' [(''tv_id'', JStr t)]) 409) \<and>
           snd second = w1 \<and>
           length (filter (\<lambda>r. row_tv_id r = Some t) (alerts (snd second))) = 1 \<and>
           count_inserts (snd second) = count_inserts w + 1 \<and>
           count_exchange_calls (snd second) = count_exchange_calls w + 1"
    by (simp add: w1_def [symmetric] Let_def)
qed

text \<open>
  A store that holds a record for id 42 answers 409 to an alert carrying 42 in its \<open>id\<close>
  field. Against the empty store, a first delivery of id 42 is placed (the exchange
  answers 201), and a second delivery is answered 409: one record, one exchange call.
\<close>

theorem duplicate_id_rejected_witness:
  "reaches_dedupe sample_config alert_42_by_id
     [(''secret'', ''changeme''), (''id'', ''42''), (''symbol'', ''BTC-USD''), (''action'', ''buy''),
      (''amount'', ''10'')] \<and>
   carries_id [(''secret'', ''changeme''), (''id'', ''42''), (''symbol'', ''BTC-USD''), (''action'', ''buy''),
      (''amount'', ''10'')] ''42'' \<and>
   Some ''42'' \<in> set (map row_tv_id (alerts store_with_42)) \<and>
   tradingview_webhook sample_lib sample_config exchange_created alert_42_by_id store_with_42 =
     (Inr (RespStatus (error_body ''duplicate alert'' [(''tv_id'', JStr ''42'')]) 409), store_with_42) \<and>
   reaches_placement sample_lib sample_config exchange_created empty_store alert_42
     [(''secret'', ''changeme''), (''tv_id'', ''42''), (''symbol'', ''BTC-USD''), (''action'', ''buy''),
      (''amount'', ''10'')] (Fin 10) \<and>
   b64decode sample_lib (COINBASE_API_SECRET sample_config) = Some ''secret'' \<and>
   (\<forall>u h b. http_post exchange_created u h b \<noteq> ConnectionFailed) \<and>
   (let w1 = snd (tradingview_webhook sample_lib sample_config exchange_created alert_42 empty_store);
        second = tradingview_webhook sample_lib sample_config exchange_bad_gateway alert_42 w1
    in fst second = Inr (RespStatus (error_body ''duplicate alert'' [(''tv_id'', JStr ''42'')]) 409) \<and>
       snd second = w1 \<and>
       length (filter (\<lambda>r. row_tv_id r = Some ''42'') (alerts (snd second))) = 1 \<and>
       count_inserts (snd second) = 1 \<and>
       count_exchange_calls (snd second) = 1)"
proof -
  have dec: "b64decode sample_lib (COINBASE_API_SECRET sample_config) = Some ''secret''"
    by (simp add: sample_config_fields sample_decode)
  have zero: "count_inserts empty_store = 0" "count_exchange_calls empty_store = 0"
    by (simp_all add: count_inserts_def count_exchange_calls_def empty_store_def)
  note held = duplicate_id_rejected [where L = sample_lib and C = sample_config and t = "''42''"
      and rd = alert_42_by_id and w = store_with_42 and env = exchange_created
      and data = "[(''secret'', ''changeme''), (''id'', ''42''), (''symbol'', ''BTC-USD''),
                   (''action'', ''buy''), (''amount'', ''10'')]"]
  note fresh = duplicate_id_rejected [where L = sample_lib and C = sample_config and t = "''42''"
      and w = empty_store
      and envA = exchange_created and rdA = alert_42 and x = "Fin 10" and key = "''secret''"
      and dataA = "[(''secret'', ''changeme''), (''tv_id'', ''42''), (''symbol'', ''BTC-USD''),
                    (''action'', ''buy''), (''amount'', ''10'')]"
      and rdB = alert_42 and envB = exchange_bad_gateway
      and dataB = "[(''secret'', ''changeme''), (''tv_id'', ''42''), (''symbol'', ''BTC-USD''),
                    (''action'', ''buy''), (''amount'', ''10'')]"]
  from held reaches_dedupe_samples(2) carries_id_samples(2) store_with_42_has_42
  have first: "tradingview_webhook sample_lib sample_config exchange_created alert_42_by_id store_with_42 =
     (Inr (RespStatus (error_body ''duplicate alert'' [(''tv_id'', JStr ''42'')]) 409), store_with_42)"
    by blast
  define wA where
    "wA = snd (tradingview_webhook sample_lib sample_config exchange_created alert_42 empty_store)"
  define second where
    "second = tradingview_webhook sample_lib sample_config exchange_bad_gateway alert_42 wA"
  from fresh reaches_placement_alert_42 carries_id_samples(1) dec exchanges_respond(1)
    reaches_dedupe_samples(1)
  have answered: "fst second = Inr (RespStatus (error_body ''duplicate alert'' [(''tv_id'', JStr ''42'')]) 409)"
    and same: "snd second = wA"
    and one: "length (filter (\<lambda>r. row_tv_id r = Some ''42'') (alerts (snd second))) = 1"
    and ins: "count_inserts (snd second) = count_inserts empty_store + 1"
    and calls: "count_exchange_calls (snd second) = count_exchange_calls empty_store + 1"
    unfolding Let_def wA_def second_def by blast+
  from ins zero have ins1: "count_inserts (snd second) = 1"
    by simp
  from calls zero have calls1: "count_exchange_calls (snd second) = 1"
    by simp
  from answered same one ins1 calls1
  have twice: "let w1 = snd (tradingview_webhook sample_lib sample_config exchange_created alert_42 empty_store);
        second = tradingview_webhook sample_lib sample_config exchange_bad_gateway alert_42 w1
    in fst second = Inr (RespStatus (error_body ''duplicate alert'' [(''tv_id'', JStr ''42'')]) 409) \<and>
       snd second = w1 \<and>
       length (filter (\<lambda>r. row_tv_id r = Some ''42'') (alerts (snd second))) = 1 \<and>
       count_inserts (snd second) = 1 \<and>
       count_exchange_calls (snd second) = 1"
    unfolding Let_def wA_def second_def by blast
  from first twice reaches_dedupe_samples(2) carries_id_samples(2) store_with_42_has_42
    reaches_placement_alert_42 dec exchanges_respond(1)
  show ?thesis
    by blast
qed

lemma reaches_bounds_alert_42_amount_0:
  "reaches_bounds_check sample_lib sample_config w alert_42_amount_0
     [(''secret'', ''changeme''), (''tv_id'', ''42''), (''symbol'', ''BTC-USD''), (''action'', ''buy''),
      (''amount'', ''0'')] (Fin 0)"
  if "alerts w = []"
  using that
  by (simp add: reaches_bounds_check_def reaches_amount_parse_def reaches_dedupe_def
      parse_alert_42_amount_0 lookup_eval sample_float_of_str_eval sample_config_fields
      already_processed_def)

text \<open>
  The claim as first stated fails in two ways. The store holds a record for id 42, yet an
  alert carrying 42 with a wrong secret is answered 401, not 409. And two deliveries of an
  alert with id 42 and amount 0 are both answered 400: no record and no exchange call,
  where the claim has exactly one of each.
\<close>

theorem duplicate_claim_needs_processed_first_delivery:
  "Some ''42'' \<in> set (map row_tv_id (alerts store_with_42)) \<and>
   parse_alert_text (strip alert_42_wrong_secret) =
     Inr [(''secret'', ''guess''), (''tv_id'', ''42''), (''symbol'', ''BTC-USD''), (''action'', ''buy''),
          (''amount'', ''10'')] \<and>
   carries_id [(''secret'', ''guess''), (''tv_id'', ''42''), (''symbol'', ''BTC-USD''), (''action'', ''buy''),
      (''amount'', ''10'')] ''42'' \<and>
   tradingview_webhook sample_lib sample_config exchange_created alert_42_wrong_secret store_with_42 =
     (Inr (RespStatus (error_body ''invalid secret'' []) 401), store_with_42) \<and>
   (let first = tradingview_webhook sample_lib sample_config exchange_created alert_42_amount_0 empty_store;
        second = tradingview_webhook sample_lib sample_config exchange_created alert_42_amount_0 (snd first)
    in fst first = Inr (RespStatus (error_body ''amount out of bounds''
                                      [(''max_allowed'', JFloat (Fin 100))]) 400) \<and>
       fst second = Inr (RespStatus (error_body ''amount out of bounds''
                                       [(''max_allowed'', JFloat (Fin 100))]) 400) \<and>
       alerts (snd second) = [] \<and>
       count_exchange_calls (snd second) = 0)"
proof -
  have bad: "tradingview_webhook sample_lib sample_config exchange_created alert_42_wrong_secret store_with_42 =
     (Inr (RespStatus (error_body ''invalid secret'' []) 401), store_with_42)"
    by (rule webhook_invalid_secret [where data = "[(''secret'', ''guess''), (''tv_id'', ''42''),
          (''symbol'', ''BTC-USD''), (''action'', ''buy''), (''amount'', ''10'')]"])
      (simp_all add: parse_alert_42_wrong_secret lookup_eval sample_config_fields)
  have e: "alerts empty_store = []"
    by (simp add: empty_store_def)
  have zero: "float_le (Fin 0) (Fin 0) \<or> float_gt (Fin 0) (MAX_USD_PER_ORDER sample_config)"
    by simp
  have rej: "tradingview_webhook sample_lib sample_config exchange_created alert_42_amount_0 empty_store =
     (Inr (RespStatus (error_body ''amount out of bounds''
            [(''max_allowed'', JFloat (MAX_USD_PER_ORDER sample_config))]) 400), empty_store)"
    by (rule webhook_out_of_bounds [OF reaches_bounds_alert_42_amount_0 [OF e] zero])
  from bad rej store_with_42_has_42 carries_id_samples(3) show ?thesis
    by (simp add: Let_def parse_alert_42_wrong_secret empty_store_def count_exchange_calls_def
        sample_config_fields)
qed

end
